theory Spec2Isabelle
  imports Complex_Main "HOL-Library.AList" "HOL-Library.Product_Lexorder"
    "HOL-Library.List_Lexorder" "HOL-Library.Char_ord"
begin

section \<open>Values, rows and bind parameters\<close>

text \<open>
  The gateway hands Python values to the Oracle driver and reads rows back as
  dictionaries. A value is NULL (Python \<open>None\<close>), a number, a string or a boolean.
  A dictionary keeps insertion order, and assigning to an existing key replaces the
  value in place; that is \<open>AList.update\<close> on an association list.
\<close>

datatype sqlval = SNull | SInt int | SStr string | SBool bool

type_synonym row = "(string \<times> sqlval) list"

type_synonym params = "(string \<times> sqlval) list"

datatype error = DatabaseError string | InterfaceError string | KeyError string
  | HTTPException int

section \<open>The request models of \<open>pydantic_models.py\<close>\<close>

datatype Sex = MALE | FEMALE

fun Sex_value :: "Sex \<Rightarrow> string" where
  "Sex_value MALE = ''M''"
| "Sex_value FEMALE = ''F''"

record PaginationParams =
  page :: int
  size_pg :: int

text \<open>The field constraints \<open>page >= 1\<close> and \<open>1 <= size <= 100\<close> of the model.\<close>

definition PaginationParams_valid :: "PaginationParams \<Rightarrow> bool" where
  "PaginationParams_valid p = (1 \<le> page p \<and> 1 \<le> size_pg p \<and> size_pg p \<le> 100)"

definition offset :: "PaginationParams \<Rightarrow> int" where
  "offset p = (page p - 1) * size_pg p"

record SearchFilters =
  region_name :: "string option"
  district_name :: "string option"
  sex :: "Sex option"
  min_age :: "int option"
  max_age :: "int option"
  marital_status :: "string option"
  education_level :: "string option"

text \<open>The field constraints \<open>min_age >= 0\<close> and \<open>max_age <= 150\<close> of the model.\<close>

definition SearchFilters_valid :: "SearchFilters \<Rightarrow> bool" where
  "SearchFilters_valid f =
     ((case min_age f of None \<Rightarrow> True | Some a \<Rightarrow> 0 \<le> a) \<and>
      (case max_age f of None \<Rightarrow> True | Some a \<Rightarrow> a \<le> 150))"

definition no_filters :: SearchFilters where
  "no_filters = \<lparr>region_name = None, district_name = None, sex = None, min_age = None,
     max_age = None, marital_status = None, education_level = None\<rparr>"

section \<open>Building the WHERE clause of \<open>search_individuals\<close>\<close>

text \<open>
  Each condition the source appends is a column reference, a comparison operator and a
  named bind placeholder. \<open>render_condition\<close> gives the text that the source writes.
\<close>

datatype comparison = Eq | Ge | Le

fun comparison_text :: "comparison \<Rightarrow> string" where
  "comparison_text Eq = ''=''"
| "comparison_text Ge = ''>=''"
| "comparison_text Le = ''<=''"

datatype condition = Condition (column_ref: string) (operator: comparison) (bind: string)

fun render_condition :: "condition \<Rightarrow> string" where
  "render_condition (Condition c op b) = c @ '' '' @ comparison_text op @ '' :'' @ b"

text \<open>Python's \<open>sep.join(xs)\<close>.\<close>

fun join :: "string \<Rightarrow> string list \<Rightarrow> string" where
  "join sep [] = []"
| "join sep [x] = x"
| "join sep (x # y # ys) = x @ sep @ join sep (y # ys)"

text \<open>
  The source tests the text fields and \<open>sex\<close> by truth value (\<open>if filters.region_name:\<close>),
  so \<open>None\<close> and the empty string both skip the field; the two ages are tested with
  \<open>is not None\<close>. Every member of \<open>Sex\<close> has a non-empty value and so is true.
\<close>

fun truthy_str :: "string option \<Rightarrow> bool" where
  "truthy_str None = False"
| "truthy_str (Some s) = (s \<noteq> [])"

fun truthy_sex :: "Sex option \<Rightarrow> bool" where
  "truthy_sex None = False"
| "truthy_sex (Some s) = (Sex_value s \<noteq> [])"

text \<open>The Python value handed to the driver as a bind value; \<open>None\<close> is NULL.\<close>

fun str_param :: "string option \<Rightarrow> sqlval" where
  "str_param None = SNull"
| "str_param (Some s) = SStr s"

fun int_param :: "int option \<Rightarrow> sqlval" where
  "int_param None = SNull"
| "int_param (Some n) = SInt n"

fun sex_param :: "Sex option \<Rightarrow> sqlval" where
  "sex_param None = SNull"
| "sex_param (Some s) = SStr (Sex_value s)"

text \<open>One \<open>where_conditions.append(...)\<close> followed by one \<open>params[key] = value\<close>.\<close>

definition add_filter ::
  "condition \<Rightarrow> sqlval \<Rightarrow> condition list \<times> params \<Rightarrow> condition list \<times> params" where
  "add_filter c v st = (fst st @ [c], AList.update (bind c) v (snd st))"

text \<open>An \<open>if\<close> statement without \<open>else\<close>, as a step on the two variables.\<close>

definition if_then :: "bool \<Rightarrow> ('s \<Rightarrow> 's) \<Rightarrow> 's \<Rightarrow> 's" where
  "if_then b f st = (if b then f st else st)"

text \<open>The seven \<open>if\<close> statements of the source, in its order, from the two empty variables.\<close>

definition build_where :: "SearchFilters \<Rightarrow> condition list \<times> params" where
  "build_where filters =
     fold (\<lambda>step st. step st)
       [if_then (truthy_str (region_name filters))
          (add_filter (Condition ''g.region_name'' Eq ''region_name'')
             (str_param (region_name filters))),
        if_then (truthy_str (district_name filters))
          (add_filter (Condition ''g.district_name'' Eq ''district_name'')
             (str_param (district_name filters))),
        if_then (truthy_sex (sex filters))
          (add_filter (Condition ''i.sex'' Eq ''sex'') (sex_param (sex filters))),
        if_then (min_age filters \<noteq> None)
          (add_filter (Condition ''i.age'' Ge ''min_age'') (int_param (min_age filters))),
        if_then (max_age filters \<noteq> None)
          (add_filter (Condition ''i.age'' Le ''max_age'') (int_param (max_age filters))),
        if_then (truthy_str (marital_status filters))
          (add_filter (Condition ''i.marital_status'' Eq ''marital_status'')
             (str_param (marital_status filters))),
        if_then (truthy_str (education_level filters))
          (add_filter (Condition ''i.highest_education_level'' Eq ''education_level'')
             (str_param (education_level filters)))]
       ([], [])"

definition where_conditions :: "SearchFilters \<Rightarrow> condition list" where
  "where_conditions filters = fst (build_where filters)"

definition filter_params :: "SearchFilters \<Rightarrow> params" where
  "filter_params filters = snd (build_where filters)"

text \<open>\<open>" AND ".join(where_conditions) if where_conditions else "1=1"\<close>\<close>

definition where_clause :: "condition list \<Rightarrow> string" where
  "where_clause conds =
     (if conds \<noteq> [] then join '' AND '' (map render_condition conds) else ''1=1'')"

section \<open>The statements of the read operations, and what they select\<close>

text \<open>
  The read operations send their SQL through \<open>execute_raw_sql\<close>. A statement is kept
  as the list of conditions spliced into it; \<open>sql_text\<close> is the statement as the source
  writes it, line by line with the indentation dropped.
\<close>

datatype statement =
    Count_query "condition list"
  | Data_query "condition list"
  | Geographical_query "condition list"
  | Household_query "condition list"
  | Individual_query "condition list" bool

fun sql_text :: "statement \<Rightarrow> string list" where
  "sql_text (Count_query conds) =
     [''SELECT COUNT(*) as total_count'',
      ''FROM INDIVIDUAL i'',
      ''JOIN HOUSEHOLD h ON i.household_id = h.household_id'',
      ''JOIN GEOGRAPHICAL_INFO g ON h.geo_id = g.geo_id'',
      ''WHERE '' @ where_clause conds]"
| "sql_text (Data_query conds) =
     [''SELECT * FROM ('',
      ''SELECT i.*, g.region_name, g.district_name, g.locality_name,'',
      ''ROW_NUMBER() OVER (ORDER BY i.individual_id) as rn'',
      ''FROM INDIVIDUAL i'',
      ''JOIN HOUSEHOLD h ON i.household_id = h.household_id'',
      ''JOIN GEOGRAPHICAL_INFO g ON h.geo_id = g.geo_id'',
      ''WHERE '' @ where_clause conds,
      '') WHERE rn BETWEEN :start_row AND :end_row'']"
| "sql_text (Geographical_query conds) =
     [''SELECT geo_id, region_name, district_name, district_type, sub_district,'',
      ''locality_name, detailed_address, contact_phone_1, contact_phone_2,'',
      ''date_created, created_by'',
      ''FROM GEOGRAPHICAL_INFO''] @
     (if conds \<noteq> [] then [''WHERE '' @ join '' AND '' (map render_condition conds)] else []) @
     [''ORDER BY region_name, district_name'']"
| "sql_text (Household_query conds) =
     [''SELECT h.household_id, h.geo_id, h.household_number_in_structure,'',
      ''h.type_of_residence, h.total_members, h.total_males, h.total_females,'',
      ''h.housing_unit_status, h.interview_date_started, h.interview_date_completed,'',
      ''g.region_name, g.district_name, g.locality_name'',
      ''FROM HOUSEHOLD h'',
      ''JOIN GEOGRAPHICAL_INFO g ON h.geo_id = g.geo_id'',
      ''WHERE 1=1'' @ concat (map (\<lambda>c. '' AND '' @ render_condition c) conds),
      ''ORDER BY g.region_name, g.district_name, h.household_id'']"
| "sql_text (Individual_query conds limited) =
     [''SELECT * FROM V_INDIVIDUAL_DETAILS''] @
     (if conds \<noteq> [] then [''WHERE '' @ join '' AND '' (map render_condition conds)] else []) @
     [''ORDER BY INDIVIDUAL_ID DESC''] @
     (if limited then [''FETCH FIRST :limit ROWS ONLY''] else [])"


text \<open>
  The tables and the view the statements read. Oracle reports unquoted identifiers in
  upper case, so rows carry upper-case column names and the references of the SQL text
  are resolved through \<open>upcase\<close>; a row without the column reads as NULL.
\<close>

record database =
  INDIVIDUAL :: "row list"
  HOUSEHOLD :: "row list"
  GEOGRAPHICAL_INFO :: "row list"
  V_INDIVIDUAL_DETAILS :: "row list"

definition upcase_char :: "char \<Rightarrow> char" where
  "upcase_char c =
     (case map_of (zip ''abcdefghijklmnopqrstuvwxyz'' ''ABCDEFGHIJKLMNOPQRSTUVWXYZ'') c of
        Some u \<Rightarrow> u | None \<Rightarrow> c)"

definition upcase :: "string \<Rightarrow> string" where
  "upcase s = map upcase_char s"

definition column :: "row \<Rightarrow> string \<Rightarrow> sqlval" where
  "column r name = (case map_of r (upcase name) of Some v \<Rightarrow> v | None \<Rightarrow> SNull)"

text \<open>
  A comparison is true only between two non-NULL values of the same kind; Oracle reads
  the empty string as NULL. Anything else is unknown, which a WHERE clause rejects.
\<close>

fun sql_compare :: "comparison \<Rightarrow> sqlval \<Rightarrow> sqlval \<Rightarrow> bool" where
  "sql_compare Eq (SInt a) (SInt b) = (a = b)"
| "sql_compare Ge (SInt a) (SInt b) = (b \<le> a)"
| "sql_compare Le (SInt a) (SInt b) = (a \<le> b)"
| "sql_compare Eq (SStr a) (SStr b) = (a = b \<and> a \<noteq> [])"
| "sql_compare op a b = False"

text \<open>\<open>INDIVIDUAL i JOIN HOUSEHOLD h ON ... JOIN GEOGRAPHICAL_INFO g ON ...\<close>\<close>

type_synonym joined = "row \<times> row \<times> row"

definition individual_join :: "database \<Rightarrow> joined list" where
  "individual_join db =
     [(i, h, g).
        i \<leftarrow> INDIVIDUAL db,
        h \<leftarrow> HOUSEHOLD db,
        sql_compare Eq (column i ''household_id'') (column h ''household_id''),
        g \<leftarrow> GEOGRAPHICAL_INFO db,
        sql_compare Eq (column h ''geo_id'') (column g ''geo_id'')]"

text \<open>\<open>HOUSEHOLD h JOIN GEOGRAPHICAL_INFO g ON h.geo_id = g.geo_id\<close>; no \<open>i\<close> part.\<close>

definition household_join :: "database \<Rightarrow> joined list" where
  "household_join db =
     [([], h, g).
        h \<leftarrow> HOUSEHOLD db,
        g \<leftarrow> GEOGRAPHICAL_INFO db,
        sql_compare Eq (column h ''geo_id'') (column g ''geo_id'')]"

text \<open>A qualified reference \<open>i.age\<close>, \<open>h.geo_id\<close>, \<open>g.region_name\<close> in a joined row.\<close>

fun joined_column :: "joined \<Rightarrow> string \<Rightarrow> sqlval" where
  "joined_column (i, h, g) (a # d # name) =
     (if d \<noteq> CHR ''.'' then SNull
      else if a = CHR ''i'' then column i name
      else if a = CHR ''h'' then column h name
      else if a = CHR ''g'' then column g name
      else SNull)"
| "joined_column (i, h, g) name = SNull"

text \<open>A condition on a row, the row given by how it resolves a column reference.\<close>

definition holds :: "params \<Rightarrow> (string \<Rightarrow> sqlval) \<Rightarrow> condition \<Rightarrow> bool" where
  "holds ps look c =
     (case map_of ps (bind c) of
        Some v \<Rightarrow> sql_compare (operator c) (look (column_ref c)) v
      | None \<Rightarrow> False)"

text \<open>The rows of the join that satisfy every condition; all of them for no condition.\<close>

definition matching :: "database \<Rightarrow> condition list \<Rightarrow> params \<Rightarrow> joined list" where
  "matching db conds ps =
     filter (\<lambda>r. list_all (holds ps (joined_column r)) conds) (individual_join db)"

definition binds_present :: "condition list \<Rightarrow> params \<Rightarrow> bool" where
  "binds_present conds ps = list_all (\<lambda>c. map_of ps (bind c) \<noteq> None) conds"

text \<open>
  Sort keys: ascending with NULLs last, numbers by value and text by byte order.
\<close>

fun order_key :: "sqlval \<Rightarrow> bool \<times> int" where
  "order_key (SInt n) = (False, n)"
| "order_key v = (True, 0)"

fun text_key :: "sqlval \<Rightarrow> bool \<times> string" where
  "text_key (SStr s) = (s = [], s)"
| "text_key v = (True, [])"

text \<open>\<open>ROW_NUMBER() OVER (ORDER BY i.individual_id)\<close>, numbered from 1.\<close>

definition numbered :: "joined list \<Rightarrow> (int \<times> joined) list" where
  "numbered rs =
     (let sorted_rs = sort_key (\<lambda>r. order_key (joined_column r ''i.individual_id'')) rs
      in zip (map int [1..<Suc (length sorted_rs)]) sorted_rs)"

definition between :: "sqlval \<Rightarrow> sqlval \<Rightarrow> sqlval \<Rightarrow> bool" where
  "between v lo hi = (sql_compare Ge v lo \<and> sql_compare Le v hi)"

text \<open>\<open>i.*, g.region_name, g.district_name, g.locality_name, rn\<close>\<close>

fun select_columns :: "int \<times> joined \<Rightarrow> row" where
  "select_columns (rn, (i, h, g)) =
     i @ [(''REGION_NAME'', column g ''region_name''),
          (''DISTRICT_NAME'', column g ''district_name''),
          (''LOCALITY_NAME'', column g ''locality_name''),
          (''RN'', SInt rn)]"

text \<open>A select list of named columns; the result column is the name without its alias.\<close>

fun unqualified :: "string \<Rightarrow> string" where
  "unqualified (a # d # name) = (if d = CHR ''.'' then name else a # d # name)"
| "unqualified name = name"

definition select_named :: "(string \<Rightarrow> sqlval) \<Rightarrow> string list \<Rightarrow> row" where
  "select_named look names = map (\<lambda>n. (upcase (unqualified n), look n)) names"

definition geographical_columns :: "string list" where
  "geographical_columns =
     [''geo_id'', ''region_name'', ''district_name'', ''district_type'', ''sub_district'',
      ''locality_name'', ''detailed_address'', ''contact_phone_1'', ''contact_phone_2'',
      ''date_created'', ''created_by'']"

definition household_columns :: "string list" where
  "household_columns =
     [''h.household_id'', ''h.geo_id'', ''h.household_number_in_structure'',
      ''h.type_of_residence'', ''h.total_members'', ''h.total_males'', ''h.total_females'',
      ''h.housing_unit_status'', ''h.interview_date_started'', ''h.interview_date_completed'',
      ''g.region_name'', ''g.district_name'', ''g.locality_name'']"

text \<open>
  \<open>connection_manager.execute_raw_sql\<close> on these statements. A placeholder with no
  bound value is the database error ORA-01008, which the source logs and re-raises.
  \<open>ORDER BY ... DESC\<close> puts NULLs first; \<open>FETCH FIRST n ROWS ONLY\<close> keeps no row
  for \<open>n\<close> below 1.
\<close>

fun execute_raw_sql :: "database \<Rightarrow> statement \<Rightarrow> params \<Rightarrow> error + row list" where
  "execute_raw_sql db (Count_query conds) ps =
     (if binds_present conds ps
      then Inr [[(''TOTAL_COUNT'', SInt (int (length (matching db conds ps))))]]
      else Inl (DatabaseError ''ORA-01008''))"
| "execute_raw_sql db (Data_query conds) ps =
     (case (map_of ps ''start_row'', map_of ps ''end_row'') of
        (Some lo, Some hi) \<Rightarrow>
          if binds_present conds ps
          then Inr (map select_columns
                 (filter (\<lambda>nr. between (SInt (fst nr)) lo hi) (numbered (matching db conds ps))))
          else Inl (DatabaseError ''ORA-01008'')
      | _ \<Rightarrow> Inl (DatabaseError ''ORA-01008''))"
| "execute_raw_sql db (Geographical_query conds) ps =
     (if binds_present conds ps
      then Inr (map (\<lambda>r. select_named (column r) geographical_columns)
             (sort_key (\<lambda>r. (text_key (column r ''region_name''),
                              text_key (column r ''district_name'')))
                (filter (\<lambda>r. list_all (holds ps (column r)) conds) (GEOGRAPHICAL_INFO db))))
      else Inl (DatabaseError ''ORA-01008''))"
| "execute_raw_sql db (Household_query conds) ps =
     (if binds_present conds ps
      then Inr (map (\<lambda>r. select_named (joined_column r) household_columns)
             (sort_key (\<lambda>r. (text_key (joined_column r ''g.region_name''),
                              text_key (joined_column r ''g.district_name''),
                              order_key (joined_column r ''h.household_id'')))
                (filter (\<lambda>r. list_all (holds ps (joined_column r)) conds) (household_join db))))
      else Inl (DatabaseError ''ORA-01008''))"
| "execute_raw_sql db (Individual_query conds limited) ps =
     (if \<not> binds_present conds ps then Inl (DatabaseError ''ORA-01008'')
      else let rows = rev (sort_key (\<lambda>r. order_key (column r ''INDIVIDUAL_ID''))
                        (filter (\<lambda>r. list_all (holds ps (column r)) conds)
                           (V_INDIVIDUAL_DETAILS db)))
           in if \<not> limited then Inr rows
              else case map_of ps ''limit'' of
                     Some (SInt n) \<Rightarrow> Inr (take (nat n) rows)
                   | Some v \<Rightarrow> Inl (DatabaseError ''ORA-01722'')
                   | None \<Rightarrow> Inl (DatabaseError ''ORA-01008''))"

section \<open>\<open>CensusService.search_individuals\<close> and its callers\<close>

text \<open>\<open>count_result[0]['TOTAL_COUNT'] if count_result else 0\<close>\<close>

fun read_total_count :: "row list \<Rightarrow> error + int" where
  "read_total_count [] = Inr 0"
| "read_total_count (r # rs) =
     (case map_of r ''TOTAL_COUNT'' of
        Some (SInt n) \<Rightarrow> Inr n
      | _ \<Rightarrow> Inl (KeyError ''TOTAL_COUNT''))"

text \<open>The two assignments \<open>params['start_row'] = ...\<close> and \<open>params['end_row'] = ...\<close>.\<close>

definition page_params :: "PaginationParams \<Rightarrow> params \<Rightarrow> params" where
  "page_params pagination ps =
     AList.update ''end_row'' (SInt (offset pagination + size_pg pagination))
       (AList.update ''start_row'' (SInt (offset pagination + 1)) ps)"

definition search_individuals ::
  "database \<Rightarrow> SearchFilters \<Rightarrow> PaginationParams \<Rightarrow> error + (row list \<times> int)" where
  "search_individuals db filters pagination =
     (let conds = where_conditions filters;
          ps = filter_params filters
      in case execute_raw_sql db (Count_query conds) ps of
           Inl e \<Rightarrow> Inl e
         | Inr count_result \<Rightarrow>
             (case read_total_count count_result of
                Inl e \<Rightarrow> Inl e
              | Inr total_count \<Rightarrow>
                  (case execute_raw_sql db (Data_query conds) (page_params pagination ps) of
                     Inl e \<Rightarrow> Inl e
                   | Inr data_result \<Rightarrow> Inr (data_result, total_count))))"

text \<open>
  The route \<open>POST /search/individuals\<close> of \<open>census_routes.py\<close>: the query parameters
  are validated (\<open>page >= 1\<close>, \<open>1 <= size <= 100\<close>, status 422 otherwise), the service
  is called, and the page count is \<open>(total_count + size - 1) // size\<close>. Any exception
  of the service becomes status 500.
\<close>

record search_response =
  individuals :: "row list"
  resp_page :: int
  resp_size :: int
  total :: int
  pages :: int
  count_rows :: nat

definition search_individuals_route ::
  "database \<Rightarrow> SearchFilters \<Rightarrow> int \<Rightarrow> int \<Rightarrow> error + search_response" where
  "search_individuals_route db filters pg sz =
     (let pagination = \<lparr>page = pg, size_pg = sz\<rparr>
      in if \<not> (PaginationParams_valid pagination \<and> SearchFilters_valid filters)
         then Inl (HTTPException 422)
         else case search_individuals db filters pagination of
                Inl e \<Rightarrow> Inl (HTTPException 500)
              | Inr (data, total_count) \<Rightarrow>
                  Inr \<lparr>individuals = data, resp_page = pg, resp_size = sz,
                       total = total_count,
                       pages = (total_count + sz - 1) div sz,
                       count_rows = length data\<rparr>)"

section \<open>The ad-hoc reads of \<open>CensusService\<close>\<close>

text \<open>
  \<open>get_geographical_info\<close> and \<open>get_households\<close> test their identifiers by truth
  value (\<open>if geo_id:\<close>), which is false for \<open>None\<close> and for 0; \<open>get_individuals\<close>
  tests \<open>is not None\<close>.
\<close>

fun truthy_int :: "int option \<Rightarrow> bool" where
  "truthy_int None = False"
| "truthy_int (Some n) = (n \<noteq> 0)"

definition get_geographical_info_request :: "int option \<Rightarrow> statement \<times> params" where
  "get_geographical_info_request geo_id =
     (let st = fold (\<lambda>step st. step st)
                 [if_then (truthy_int geo_id)
                    (add_filter (Condition ''geo_id'' Eq ''geo_id'') (int_param geo_id))]
                 ([], [])
      in (Geographical_query (fst st), snd st))"

definition get_geographical_info :: "database \<Rightarrow> int option \<Rightarrow> error + row list" where
  "get_geographical_info db geo_id =
     (let rq = get_geographical_info_request geo_id
      in execute_raw_sql db (fst rq) (snd rq))"

definition get_households_request :: "int option \<Rightarrow> int option \<Rightarrow> statement \<times> params" where
  "get_households_request household_id geo_id =
     (let st = fold (\<lambda>step st. step st)
                 [if_then (truthy_int household_id)
                    (add_filter (Condition ''h.household_id'' Eq ''household_id'')
                       (int_param household_id)),
                  if_then (truthy_int geo_id)
                    (add_filter (Condition ''h.geo_id'' Eq ''geo_id'') (int_param geo_id))]
                 ([], [])
      in (Household_query (fst st), snd st))"

definition get_households :: "database \<Rightarrow> int option \<Rightarrow> int option \<Rightarrow> error + row list" where
  "get_households db household_id geo_id =
     (let rq = get_households_request household_id geo_id
      in execute_raw_sql db (fst rq) (snd rq))"

definition get_individuals_request ::
  "int option \<Rightarrow> int option \<Rightarrow> int option \<Rightarrow> statement \<times> params" where
  "get_individuals_request individual_id household_id limit =
     (let st = fold (\<lambda>step st. step st)
                 [if_then (individual_id \<noteq> None)
                    (add_filter (Condition ''INDIVIDUAL_ID'' Eq ''individual_id'')
                       (int_param individual_id)),
                  if_then (household_id \<noteq> None)
                    (add_filter (Condition ''HOUSEHOLD_ID'' Eq ''household_id'')
                       (int_param household_id))]
                 ([], []);
          ps = if_then (limit \<noteq> None) (AList.update ''limit'' (int_param limit)) (snd st)
      in (Individual_query (fst st) (limit \<noteq> None), ps))"

definition get_individuals ::
  "database \<Rightarrow> int option \<Rightarrow> int option \<Rightarrow> int option \<Rightarrow> error + row list" where
  "get_individuals db individual_id household_id limit =
     (let rq = get_individuals_request individual_id household_id limit
      in execute_raw_sql db (fst rq) (snd rq))"

section \<open>Connections, transactions and stored procedures\<close>

text \<open>
  The stored procedures live in the database, outside this code base, so the server is a
  parameter: what each named procedure does to the data of the open transaction and what
  it stores in the output variable, and whether connecting or committing fails.
  The data has any type \<open>'db\<close>.
\<close>

text \<open>
  A positional argument of \<open>cursor.callproc\<close>: a value, or an output variable made by
  \<open>cursor.var(oracledb.DB_TYPE_NUMBER)\<close> or by \<open>cursor.var(bool)\<close>.
\<close>

datatype arg = In sqlval | Out_number | Out_bool

type_synonym 'db procedures = "string \<Rightarrow> arg list \<Rightarrow> 'db \<Rightarrow> error + ('db \<times> sqlval)"

record 'db server =
  connect_error :: "error option"
  commit_error :: "error option"
  procedures :: "'db procedures"
  session_factory :: bool

text \<open>
  What is observed of one unit of work: the data every session sees (\<open>committed\<close>), the
  data of the open transaction (\<open>working\<close>), and the calls made on the connection in
  order.
\<close>

datatype event = Connect | Call string "arg list" | Commit | Rollback | Cursor_close | Close

record 'db world =
  committed :: 'db
  working :: 'db
  trace :: "event list"

definition commit :: "'db server \<Rightarrow> 'db world \<Rightarrow> (error + unit) \<times> 'db world" where
  "commit env w =
     (case commit_error env of
        Some e \<Rightarrow> (Inl e, w\<lparr>trace := trace w @ [Commit]\<rparr>)
      | None \<Rightarrow> (Inr (), w\<lparr>committed := working w, trace := trace w @ [Commit]\<rparr>))"

definition rollback :: "'db world \<Rightarrow> 'db world" where
  "rollback w = w\<lparr>working := committed w, trace := trace w @ [Rollback]\<rparr>"

text \<open>Closing a connection discards the work that was not committed.\<close>

definition close :: "'db world \<Rightarrow> 'db world" where
  "close w = w\<lparr>working := committed w, trace := trace w @ [Close]\<rparr>"

definition cursor_close :: "'db world \<Rightarrow> 'db world" where
  "cursor_close w = w\<lparr>trace := trace w @ [Cursor_close]\<rparr>"

text \<open>A procedure that raises leaves the data of the transaction as it was.\<close>

definition callproc ::
  "'db server \<Rightarrow> string \<Rightarrow> arg list \<Rightarrow> 'db world \<Rightarrow> (error + sqlval) \<times> 'db world" where
  "callproc env name args w =
     (case procedures env name args (working w) of
        Inl e \<Rightarrow> (Inl e, w\<lparr>trace := trace w @ [Call name args]\<rparr>)
      | Inr (db, out) \<Rightarrow> (Inr out, w\<lparr>working := db, trace := trace w @ [Call name args]\<rparr>))"

subsection \<open>The two context managers of \<open>oracle_connection.py\<close>\<close>

text \<open>
  \<open>DirectOracleConnection.get_connection\<close>: connect, run the body of the \<open>with\<close>
  statement; on an exception of the body roll back and re-raise; close in every case in
  which the connection was made. It has no commit. When connecting fails the body does
  not run, and there is nothing to roll back or close.
\<close>

definition get_connection ::
  "'db server \<Rightarrow> ('db world \<Rightarrow> (error + 'a) \<times> 'db world) \<Rightarrow> 'db world
     \<Rightarrow> (error + 'a) \<times> 'db world" where
  "get_connection env body w =
     (case connect_error env of
        Some e \<Rightarrow> (Inl e, w)
      | None \<Rightarrow>
          (case body (w\<lparr>working := committed w, trace := trace w @ [Connect]\<rparr>) of
             (Inl e, w1) \<Rightarrow> (Inl e, close (rollback w1))
           | (Inr r, w1) \<Rightarrow> (Inr r, close w1)))"

text \<open>
  \<open>OracleConnectionManager.get_session_context\<close>: take a session from the factory
  (an exception when there is none), run the body, commit; on an exception of the body
  or of the commit roll back and re-raise; close in every case.
\<close>

definition get_session_context ::
  "'db server \<Rightarrow> ('db world \<Rightarrow> (error + 'a) \<times> 'db world) \<Rightarrow> 'db world
     \<Rightarrow> (error + 'a) \<times> 'db world" where
  "get_session_context env body w =
     (if \<not> session_factory env then (Inl (InterfaceError ''Database engine not initialized''), w)
      else case body w of
             (Inl e, w1) \<Rightarrow> (Inl e, close (rollback w1))
           | (Inr r, w1) \<Rightarrow>
               (case commit env w1 of
                  (Inl e, w2) \<Rightarrow> (Inl e, close (rollback w2))
                | (Inr u, w2) \<Rightarrow> (Inr r, close w2)))"

subsection \<open>The procedure calls of \<open>CensusService\<close>\<close>

text \<open>
  The create, update and delete methods of \<open>db_service.py\<close> repeat three bodies that
  differ in the procedure name and the argument list only. The values read from the
  request object are given as the list \<open>field_values\<close>, in the positional order of the source.

  The body of every \<open>create_*\<close>: a NUMBER output variable as last argument, call,
  commit, return the variable; \<open>finally\<close> closes the cursor; no \<open>except\<close>.
\<close>

definition insert_body ::
  "'db server \<Rightarrow> string \<Rightarrow> sqlval list \<Rightarrow> 'db world \<Rightarrow> (error + sqlval) \<times> 'db world" where
  "insert_body env name field_values w =
     (case callproc env name (map In field_values @ [Out_number]) w of
        (Inl e, w1) \<Rightarrow> (Inl e, cursor_close w1)
      | (Inr new_id, w1) \<Rightarrow>
          (case commit env w1 of
             (Inl e, w2) \<Rightarrow> (Inl e, cursor_close w2)
           | (Inr u, w2) \<Rightarrow> (Inr new_id, cursor_close w2)))"

text \<open>
  The body of every \<open>update_*\<close> and of \<open>delete_geographical_info\<close>,
  \<open>delete_household\<close> and \<open>delete_housing\<close>: call, commit, \<open>return True\<close>;
  \<open>except Exception\<close> logs and does \<open>return False\<close>; \<open>finally\<close> closes the cursor.
\<close>

definition flag_body ::
  "'db server \<Rightarrow> string \<Rightarrow> sqlval list \<Rightarrow> 'db world \<Rightarrow> (error + bool) \<times> 'db world" where
  "flag_body env name field_values w =
     (case callproc env name (map In field_values) w of
        (Inl e, w1) \<Rightarrow> (Inr False, cursor_close w1)
      | (Inr out, w1) \<Rightarrow>
          (case commit env w1 of
             (Inl e, w2) \<Rightarrow> (Inr False, cursor_close w2)
           | (Inr u, w2) \<Rightarrow> (Inr True, cursor_close w2)))"

definition create_geographical_info ::
  "'db server \<Rightarrow> sqlval list \<Rightarrow> 'db world \<Rightarrow> (error + sqlval) \<times> 'db world" where
  "create_geographical_info env geo_data w =
     get_connection env (insert_body env ''SP_INSERT_GEOGRAPHICAL_INFO'' geo_data) w"

definition update_geographical_info ::
  "'db server \<Rightarrow> int \<Rightarrow> sqlval list \<Rightarrow> 'db world \<Rightarrow> (error + bool) \<times> 'db world" where
  "update_geographical_info env geo_id geo_data w =
     get_connection env (flag_body env ''SP_UPDATE_GEOGRAPHICAL_INFO'' (SInt geo_id # geo_data)) w"

definition delete_geographical_info ::
  "'db server \<Rightarrow> int \<Rightarrow> 'db world \<Rightarrow> (error + bool) \<times> 'db world" where
  "delete_geographical_info env geo_id w =
     get_connection env (flag_body env ''SP_DELETE_GEOGRAPHICAL_INFO'' [SInt geo_id]) w"

definition create_household ::
  "'db server \<Rightarrow> sqlval list \<Rightarrow> 'db world \<Rightarrow> (error + sqlval) \<times> 'db world" where
  "create_household env household_data w =
     get_connection env (insert_body env ''SP_INSERT_HOUSEHOLD'' household_data) w"

definition update_household ::
  "'db server \<Rightarrow> int \<Rightarrow> sqlval list \<Rightarrow> 'db world \<Rightarrow> (error + bool) \<times> 'db world" where
  "update_household env household_id household_data w =
     get_connection env
       (flag_body env ''SP_UPDATE_HOUSEHOLD'' (SInt household_id # household_data)) w"

definition delete_household ::
  "'db server \<Rightarrow> int \<Rightarrow> 'db world \<Rightarrow> (error + bool) \<times> 'db world" where
  "delete_household env household_id w =
     get_connection env (flag_body env ''SP_DELETE_HOUSEHOLD'' [SInt household_id]) w"

definition create_individual ::
  "'db server \<Rightarrow> sqlval list \<Rightarrow> 'db world \<Rightarrow> (error + sqlval) \<times> 'db world" where
  "create_individual env individual_data w =
     get_connection env (insert_body env ''SP_INSERT_INDIVIDUAL'' individual_data) w"

definition update_individual ::
  "'db server \<Rightarrow> int \<Rightarrow> sqlval list \<Rightarrow> 'db world \<Rightarrow> (error + bool) \<times> 'db world" where
  "update_individual env individual_id individual_data w =
     get_connection env
       (flag_body env ''SP_UPDATE_INDIVIDUAL'' (SInt individual_id # individual_data)) w"

text \<open>
  \<open>delete_individual\<close> is written differently: a boolean output variable, call,
  return the variable; \<open>except oracledb.DatabaseError\<close> logs and does
  \<open>return False\<close>, any other exception leaves the body; no commit, no \<open>finally\<close>.
\<close>

definition delete_individual_body ::
  "'db server \<Rightarrow> int \<Rightarrow> 'db world \<Rightarrow> (error + sqlval) \<times> 'db world" where
  "delete_individual_body env individual_id w =
     (case callproc env ''SP_DELETE_INDIVIDUAL'' [In (SInt individual_id), Out_bool] w of
        (Inl (DatabaseError m), w1) \<Rightarrow> (Inr (SBool False), w1)
      | (Inl e, w1) \<Rightarrow> (Inl e, w1)
      | (Inr success, w1) \<Rightarrow> (Inr success, w1))"

definition delete_individual ::
  "'db server \<Rightarrow> int \<Rightarrow> 'db world \<Rightarrow> (error + sqlval) \<times> 'db world" where
  "delete_individual env individual_id w =
     get_connection env (delete_individual_body env individual_id) w"

definition create_housing ::
  "'db server \<Rightarrow> sqlval list \<Rightarrow> 'db world \<Rightarrow> (error + sqlval) \<times> 'db world" where
  "create_housing env housing_data w =
     get_connection env (insert_body env ''SP_INSERT_HOUSING'' housing_data) w"

definition update_housing ::
  "'db server \<Rightarrow> int \<Rightarrow> sqlval list \<Rightarrow> 'db world \<Rightarrow> (error + bool) \<times> 'db world" where
  "update_housing env housing_id housing_data w =
     get_connection env (flag_body env ''SP_UPDATE_HOUSING'' (SInt housing_id # housing_data)) w"

definition delete_housing ::
  "'db server \<Rightarrow> int \<Rightarrow> 'db world \<Rightarrow> (error + bool) \<times> 'db world" where
  "delete_housing env housing_id w =
     get_connection env (flag_body env ''SP_DELETE_HOUSING'' [SInt housing_id]) w"

definition create_economic_activity ::
  "'db server \<Rightarrow> sqlval list \<Rightarrow> 'db world \<Rightarrow> (error + sqlval) \<times> 'db world" where
  "create_economic_activity env economic_data w =
     get_connection env (insert_body env ''SP_INSERT_ECONOMIC_ACTIVITY'' economic_data) w"

text \<open>
  The routes \<open>DELETE /households/{id}\<close> and \<open>DELETE /individuals/{id}\<close>: a true
  result is a success response, a false one is status 404, an exception is status 500.
\<close>

fun truthy_val :: "sqlval \<Rightarrow> bool" where
  "truthy_val SNull = False"
| "truthy_val (SBool b) = b"
| "truthy_val (SInt n) = (n \<noteq> 0)"
| "truthy_val (SStr s) = (s \<noteq> [])"

definition delete_household_route :: "'db server \<Rightarrow> int \<Rightarrow> 'db world \<Rightarrow> (error + unit) \<times> 'db world" where
  "delete_household_route env household_id w =
     (case delete_household env household_id w of
        (Inl e, w1) \<Rightarrow> (Inl (HTTPException 500), w1)
      | (Inr success, w1) \<Rightarrow> (if success then Inr () else Inl (HTTPException 404), w1))"

definition delete_individual_route :: "'db server \<Rightarrow> int \<Rightarrow> 'db world \<Rightarrow> (error + unit) \<times> 'db world" where
  "delete_individual_route env individual_id w =
     (case delete_individual env individual_id w of
        (Inl e, w1) \<Rightarrow> (Inl (HTTPException 500), w1)
      | (Inr success, w1) \<Rightarrow> (if truthy_val success then Inr () else Inl (HTTPException 404), w1))"

section \<open>The connections the gateway holds\<close>

text \<open>
  Two kinds of connection are opened by \<open>oracle_connection.py\<close>. The engine of
  \<open>OracleConnectionManager\<close> is created with \<open>poolclass=QueuePool\<close>,
  \<open>pool_size=settings.ORACLE_POOL_SIZE\<close> and
  \<open>max_overflow=settings.ORACLE_MAX_OVERFLOW\<close>; \<open>execute_raw_sql\<close>,
  \<open>test_connection\<close> and the sessions take their connection from it.
  \<open>DirectOracleConnection.get_connection\<close> calls \<open>oracledb.connect\<close> itself.
\<close>

record pool_settings =
  ORACLE_POOL_SIZE :: int
  ORACLE_MAX_OVERFLOW :: int

text \<open>The defaults of \<open>oracle_config.py\<close>.\<close>

definition default_settings :: pool_settings where
  "default_settings = \<lparr>ORACLE_POOL_SIZE = 5, ORACLE_MAX_OVERFLOW = 10\<rparr>"

record connections =
  checked_out :: nat
  idle :: nat
  direct :: nat

datatype action = Engine_checkout | Engine_checkin | Direct_connect | Direct_close

text \<open>
  Modelled from the spec: the pool is SQLAlchemy's \<open>QueuePool\<close>, which is not code of
  this repository. A checkout takes an idle connection when there is one, opens a new
  one while fewer than pool size plus overflow exist, and otherwise waits and opens
  nothing; a checkin keeps the connection idle while fewer than pool size are idle and
  closes it otherwise. A pool size of 0 or a negative overflow means no limit.
\<close>

definition pool_ceiling :: "pool_settings \<Rightarrow> nat" where
  "pool_ceiling cfg = nat (ORACLE_POOL_SIZE cfg + ORACLE_MAX_OVERFLOW cfg)"

definition pool_limited :: "pool_settings \<Rightarrow> bool" where
  "pool_limited cfg = (0 < ORACLE_POOL_SIZE cfg \<and> 0 \<le> ORACLE_MAX_OVERFLOW cfg)"

fun step :: "pool_settings \<Rightarrow> action \<Rightarrow> connections \<Rightarrow> connections" where
  "step cfg Engine_checkout c =
     (if 0 < idle c then c\<lparr>checked_out := checked_out c + 1, idle := idle c - 1\<rparr>
      else if \<not> pool_limited cfg \<or> checked_out c + idle c < pool_ceiling cfg
      then c\<lparr>checked_out := checked_out c + 1\<rparr>
      else c)"
| "step cfg Engine_checkin c =
     (if checked_out c = 0 then c
      else if int (idle c) < ORACLE_POOL_SIZE cfg
      then c\<lparr>checked_out := checked_out c - 1, idle := idle c + 1\<rparr>
      else c\<lparr>checked_out := checked_out c - 1\<rparr>)"
| "step cfg Direct_connect c = c\<lparr>direct := direct c + 1\<rparr>"
| "step cfg Direct_close c = c\<lparr>direct := direct c - 1\<rparr>"

definition run :: "pool_settings \<Rightarrow> action list \<Rightarrow> connections \<Rightarrow> connections" where
  "run cfg acts c = fold (step cfg) acts c"

definition no_connections :: connections where
  "no_connections = \<lparr>checked_out = 0, idle = 0, direct = 0\<rparr>"

definition held :: "connections \<Rightarrow> nat" where
  "held c = checked_out c + idle c + direct c"

text \<open>The connections a unit of work opens and closes, read off its calls.\<close>

fun direct_actions :: "event list \<Rightarrow> action list" where
  "direct_actions [] = []"
| "direct_actions (Connect # es) = Direct_connect # direct_actions es"
| "direct_actions (Close # es) = Direct_close # direct_actions es"
| "direct_actions (e # es) = direct_actions es"

text \<open>
  \<open>execute_raw_sql\<close> and \<open>test_connection\<close> run inside
  \<open>with self.engine.connect() as connection\<close>: one checkout from the pool of the
  engine, and the checkin when the block is left.
\<close>

definition engine_connect_actions :: "action list" where
  "engine_connect_actions = [Engine_checkout, Engine_checkin]"

section \<open>Sample data for the concrete runs\<close>

text \<open>
  A server whose data is a list of identifiers. Its delete procedures remove the
  identifier and raise nothing when it is absent; the one with an output variable
  reports whether a row was there. \<open>SP_INSERT_HOUSEHOLD\<close> adds the next identifier
  and returns it. Every other name is unknown to it and raises.
\<close>

definition sample_procedures :: "int list procedures" where
  "sample_procedures name args db =
     (if name = ''SP_DELETE_HOUSEHOLD'' then
        (case args of
           [In (SInt k)] \<Rightarrow> Inr (removeAll k db, SNull)
         | _ \<Rightarrow> Inl (DatabaseError ''PLS-00306''))
      else if name = ''SP_DELETE_INDIVIDUAL'' then
        (case args of
           [In (SInt k), Out_bool] \<Rightarrow> Inr (removeAll k db, SBool (k \<in> set db))
         | _ \<Rightarrow> Inl (DatabaseError ''PLS-00306''))
      else if name = ''SP_INSERT_HOUSEHOLD'' then
        Inr (db @ [int (length db) + 1], SInt (int (length db) + 1))
      else Inl (DatabaseError ''PLS-00201''))"

definition sample_server :: "int list server" where
  "sample_server = \<lparr>connect_error = None, commit_error = None,
     procedures = sample_procedures, session_factory = True\<rparr>"

definition sample_world :: "int list world" where
  "sample_world = \<lparr>committed = [1, 2, 3], working = [1, 2, 3], trace = []\<rparr>"

text \<open>
  A seeded database: one region, two households, fourteen individuals in identifier
  order, of whom the twelve with identifiers 2 to 13 are between 18 and 65 years old.
\<close>

definition seeded_individual :: "int \<Rightarrow> int \<Rightarrow> row" where
  "seeded_individual n a =
     [(''INDIVIDUAL_ID'', SInt n), (''HOUSEHOLD_ID'', SInt (1 + n mod 2)), (''AGE'', SInt a)]"

definition seeded :: database where
  "seeded = \<lparr>
     INDIVIDUAL = map (\<lambda>(n, a). seeded_individual n a)
       [(1, 10), (2, 18), (3, 25), (4, 30), (5, 35), (6, 40), (7, 45), (8, 50), (9, 55),
        (10, 60), (11, 62), (12, 64), (13, 65), (14, 70)],
     HOUSEHOLD = [[(''HOUSEHOLD_ID'', SInt 1), (''GEO_ID'', SInt 1)],
                  [(''HOUSEHOLD_ID'', SInt 2), (''GEO_ID'', SInt 1)]],
     GEOGRAPHICAL_INFO = [[(''GEO_ID'', SInt 1), (''REGION_NAME'', SStr ''Greater Accra''),
                           (''DISTRICT_NAME'', SStr ''Accra Metro'')]],
     V_INDIVIDUAL_DETAILS = [[(''INDIVIDUAL_ID'', SInt 0), (''HOUSEHOLD_ID'', SInt 1)],
                             [(''INDIVIDUAL_ID'', SInt 1), (''HOUSEHOLD_ID'', SInt 1)],
                             [(''INDIVIDUAL_ID'', SInt 2), (''HOUSEHOLD_ID'', SInt 2)]]\<rparr>"

definition adults :: SearchFilters where
  "adults = no_filters\<lparr>min_age := Some 18, max_age := Some 65\<rparr>"

text \<open>A filter with every field set; the minimum age 0 is a value, not an absence.\<close>

definition all_fields :: SearchFilters where
  "all_fields = \<lparr>region_name = Some ''Volta'', district_name = Some ''Ho'', sex = Some FEMALE,
     min_age = Some 0, max_age = Some 150, marital_status = Some ''Married'',
     education_level = Some ''Tertiary''\<rparr>"

section \<open>Properties of the WHERE clause and of the row window\<close>

lemma fst_if_then_add: "fst (if_then b (add_filter c v) st) = fst st @ (if b then [c] else [])"
  by (simp add: if_then_def add_filter_def)

lemma map_of_if_then_add:
  "map_of (snd (if_then b (add_filter c v) st)) =
     (if b then (map_of (snd st))(bind c \<mapsto> v) else map_of (snd st))"
  by (simp add: if_then_def add_filter_def update_conv')

lemma where_conditions_parts:
  "where_conditions f =
     (if truthy_str (region_name f) then [Condition ''g.region_name'' Eq ''region_name''] else []) @
     (if truthy_str (district_name f) then [Condition ''g.district_name'' Eq ''district_name''] else []) @
     (if truthy_sex (sex f) then [Condition ''i.sex'' Eq ''sex''] else []) @
     (if min_age f \<noteq> None then [Condition ''i.age'' Ge ''min_age''] else []) @
     (if max_age f \<noteq> None then [Condition ''i.age'' Le ''max_age''] else []) @
     (if truthy_str (marital_status f) then [Condition ''i.marital_status'' Eq ''marital_status''] else []) @
     (if truthy_str (education_level f) then [Condition ''i.highest_education_level'' Eq ''education_level''] else [])"
  unfolding where_conditions_def build_where_def fold_simps
  by (simp only: fst_if_then_add fst_conv append_Nil append_assoc)

lemma upd_if_apply: "(if b then m(k \<mapsto> v) else m) k' = (if b \<and> k' = k then Some v else m k')"
  by simp

lemma filter_params_lookup:
  "map_of (filter_params f) k =
     (if truthy_str (education_level f) \<and> k = ''education_level'' then Some (str_param (education_level f))
      else if truthy_str (marital_status f) \<and> k = ''marital_status'' then Some (str_param (marital_status f))
      else if max_age f \<noteq> None \<and> k = ''max_age'' then Some (int_param (max_age f))
      else if min_age f \<noteq> None \<and> k = ''min_age'' then Some (int_param (min_age f))
      else if truthy_sex (sex f) \<and> k = ''sex'' then Some (sex_param (sex f))
      else if truthy_str (district_name f) \<and> k = ''district_name'' then Some (str_param (district_name f))
      else if truthy_str (region_name f) \<and> k = ''region_name'' then Some (str_param (region_name f))
      else None)"
  unfolding filter_params_def build_where_def fold_simps
  by (simp only: map_of_if_then_add condition.sel snd_conv map_of.simps upd_if_apply)

lemma binds_present_filter: "binds_present (where_conditions f) (filter_params f)"
  unfolding binds_present_def where_conditions_parts
  by (simp add: filter_params_lookup)

lemma page_params_lookup:
  "map_of (page_params p ps) k =
     (if k = ''end_row'' then Some (SInt (offset p + size_pg p))
      else if k = ''start_row'' then Some (SInt (offset p + 1))
      else map_of ps k)"
  by (simp add: page_params_def update_conv')

lemma where_binds:
  "c \<in> set (where_conditions f) \<Longrightarrow> bind c \<noteq> ''start_row'' \<and> bind c \<noteq> ''end_row''"
  unfolding where_conditions_parts by (auto split: if_splits)

lemma holds_page_params:
  "bind c \<noteq> ''start_row'' \<and> bind c \<noteq> ''end_row'' \<Longrightarrow> holds (page_params p ps) look c = holds ps look c"
  by (simp add: holds_def page_params_lookup)

lemma matching_page_params:
  "matching db (where_conditions f) (page_params p ps) = matching db (where_conditions f) ps"
  unfolding matching_def
  by (rule filter_cong [OF refl]) (simp add: list_all_iff holds_page_params where_binds)

lemma binds_present_page:
  "binds_present (where_conditions f) (page_params p (filter_params f))"
  using binds_present_filter [of f]
  by (simp add: binds_present_def list_all_iff page_params_lookup)

lemma window_zip:
  "filter (\<lambda>nr. lo \<le> fst nr \<and> fst nr \<le> hi) (zip (map int [k..<k + length xs]) xs) =
   take (nat (hi + 1 - max lo (int k))) (drop (nat (lo - int k)) (zip (map int [k..<k + length xs]) xs))"
proof (induction xs arbitrary: k)
  case Nil
  then show ?case by simp
next
  case (Cons x xs)
  have upt: "[k..<k + length (x # xs)] = k # [Suc k..<Suc k + length xs]"
    using upt_conv_Cons [of k "k + length (x # xs)"] by (simp del: upt_Suc)
  let ?rest = "zip (map int [Suc k..<Suc k + length xs]) xs"
  have IH: "filter (\<lambda>nr. lo \<le> fst nr \<and> fst nr \<le> hi) ?rest =
        take (nat (hi + 1 - max lo (int (Suc k)))) (drop (nat (lo - int (Suc k))) ?rest)"
    by (rule Cons.IH)
  show ?case
  proof (cases "lo \<le> int k")
    case True
    then have d0: "nat (lo - int k) = 0" "nat (lo - int (Suc k)) = 0" by simp_all
    show ?thesis
    proof (cases "int k \<le> hi")
      case True
      with \<open>lo \<le> int k\<close> have
        "nat (hi + 1 - max lo (int k)) = Suc (nat (hi + 1 - max lo (int (Suc k))))"
        by (simp add: max_def)
      then show ?thesis
        using IH True \<open>lo \<le> int k\<close> unfolding upt d0
        by (simp del: upt_Suc)
    next
      case False
      with \<open>lo \<le> int k\<close> have
        "nat (hi + 1 - max lo (int k)) = 0" "nat (hi + 1 - max lo (int (Suc k))) = 0"
        by (simp_all add: max_def)
      then show ?thesis
        using IH False unfolding upt d0
        by (simp del: upt_Suc)
    qed
  next
    case False
    then have "nat (lo - int k) = Suc (nat (lo - int (Suc k)))"
      and "max lo (int k) = max lo (int (Suc k))"
      by (simp_all add: max_def)
    then show ?thesis
      using IH False unfolding upt
      by (simp del: upt_Suc)
  qed
qed

lemma numbered_window:
  "filter (\<lambda>nr. between (SInt (fst nr)) (SInt lo) (SInt hi)) (numbered rs) =
   take (nat (hi + 1 - max lo 1)) (drop (nat (lo - 1)) (numbered rs))"
proof -
  have "filter (\<lambda>nr. between (SInt (fst nr)) (SInt lo) (SInt hi)) (numbered rs) =
        filter (\<lambda>nr. lo \<le> fst nr \<and> fst nr \<le> hi) (numbered rs)"
    by (simp add: between_def)
  also have "\<dots> = take (nat (hi + 1 - max lo 1)) (drop (nat (lo - 1)) (numbered rs))"
    using window_zip [of lo hi 1 "sort_key (\<lambda>r. order_key (joined_column r ''i.individual_id'')) rs"]
    by (simp add: numbered_def Let_def del: upt_Suc)
  finally show ?thesis .
qed

lemma length_numbered: "length (numbered rs) = length rs"
  by (simp add: numbered_def Let_def del: upt_Suc)

lemma numbers_of_numbered: "map fst (numbered rs) = map int [1..<Suc (length rs)]"
  by (simp add: numbered_def Let_def del: upt_Suc)

lemma rows_of_numbered:
  "map snd (numbered rs) = sort_key (\<lambda>r. order_key (joined_column r ''i.individual_id'')) rs"
  by (simp add: numbered_def Let_def del: upt_Suc)

lemma search_individuals_result:
  "search_individuals db f p =
     Inr (map select_columns
            [nr \<leftarrow> numbered (matching db (where_conditions f) (filter_params f)).
               offset p + 1 \<le> fst nr \<and> fst nr \<le> offset p + size_pg p],
          int (length (matching db (where_conditions f) (filter_params f))))"
  by (simp add: search_individuals_def Let_def binds_present_filter binds_present_page
      page_params_lookup matching_page_params between_def)

lemma sorted_numbered:
  "sorted (map (\<lambda>nr. order_key (joined_column (snd nr) ''i.individual_id'')) (numbered rs))"
proof -
  have "map (\<lambda>nr. order_key (joined_column (snd nr) ''i.individual_id'')) (numbered rs) =
        map (\<lambda>r. order_key (joined_column r ''i.individual_id'')) (map snd (numbered rs))"
    by (simp add: comp_def)
  then show ?thesis
    by (simp only: rows_of_numbered sorted_sort_key)
qed

section \<open>The row range of a page\<close>

text \<open>
  C1. For every page of at least 1 and every size from 1 to 100, \<open>search_individuals\<close>
  binds \<open>start_row\<close> to \<open>(page-1)*size+1\<close> and \<open>end_row\<close> to \<open>(page-1)*size+size\<close>,
  the data statement keeps the rows whose \<open>ROW_NUMBER() OVER (ORDER BY i.individual_id)\<close>
  lies between the two, and so the rows returned are exactly those of the matching rows,
  numbered from 1 in ascending order of the identifier, whose number is in that inclusive
  range.
\<close>

theorem search_row_range:
  assumes "PaginationParams_valid p"
  shows "map_of (page_params p (filter_params f)) ''start_row'' =
           Some (SInt ((page p - 1) * size_pg p + 1)) \<and>
         map_of (page_params p (filter_params f)) ''end_row'' =
           Some (SInt ((page p - 1) * size_pg p + size_pg p)) \<and>
         sql_text (Data_query (where_conditions f)) ! 2 =
           ''ROW_NUMBER() OVER (ORDER BY i.individual_id) as rn'' \<and>
         last (sql_text (Data_query (where_conditions f))) =
           '') WHERE rn BETWEEN :start_row AND :end_row'' \<and>
         search_individuals db f p =
           Inr (map select_columns
                  [nr \<leftarrow> numbered (matching db (where_conditions f) (filter_params f)).
                     (page p - 1) * size_pg p + 1 \<le> fst nr \<and>
                     fst nr \<le> (page p - 1) * size_pg p + size_pg p],
                int (length (matching db (where_conditions f) (filter_params f)))) \<and>
         map fst (numbered (matching db (where_conditions f) (filter_params f))) =
           map int [1..<Suc (length (matching db (where_conditions f) (filter_params f)))] \<and>
         sorted (map (\<lambda>nr. order_key (joined_column (snd nr) ''i.individual_id''))
                   (numbered (matching db (where_conditions f) (filter_params f))))"
proof -
  have "sql_text (Data_query (where_conditions f)) ! 2 =
          ''ROW_NUMBER() OVER (ORDER BY i.individual_id) as rn''"
    by (simp add: numeral_2_eq_2)
  moreover have "last (sql_text (Data_query (where_conditions f))) =
          '') WHERE rn BETWEEN :start_row AND :end_row''"
    by simp
  moreover have "search_individuals db f p =
           Inr (map select_columns
                  [nr \<leftarrow> numbered (matching db (where_conditions f) (filter_params f)).
                     (page p - 1) * size_pg p + 1 \<le> fst nr \<and>
                     fst nr \<le> (page p - 1) * size_pg p + size_pg p],
                int (length (matching db (where_conditions f) (filter_params f))))"
    using search_individuals_result [of db f p] by (simp add: offset_def)
  ultimately show ?thesis
    by (simp only: page_params_lookup offset_def numbers_of_numbered sorted_numbered) simp
qed

text \<open>Page 1 of size 20 is rows 1 to 20, page 3 of size 10 is rows 21 to 30.\<close>

theorem search_row_range_witness:
  "PaginationParams_valid \<lparr>page = 1, size_pg = 20\<rparr> \<and>
   map_of (page_params \<lparr>page = 1, size_pg = 20\<rparr> (filter_params adults)) ''start_row'' = Some (SInt 1) \<and>
   map_of (page_params \<lparr>page = 1, size_pg = 20\<rparr> (filter_params adults)) ''end_row'' = Some (SInt 20) \<and>
   PaginationParams_valid \<lparr>page = 3, size_pg = 10\<rparr> \<and>
   map_of (page_params \<lparr>page = 3, size_pg = 10\<rparr> (filter_params adults)) ''start_row'' = Some (SInt 21) \<and>
   map_of (page_params \<lparr>page = 3, size_pg = 10\<rparr> (filter_params adults)) ''end_row'' = Some (SInt 30) \<and>
   map (\<lambda>r. column r ''rn'')
     (fst (projr (search_individuals seeded adults \<lparr>page = 2, size_pg = 5\<rparr>))) =
     [SInt 6, SInt 7, SInt 8, SInt 9, SInt 10]"
proof -
  have v1: "PaginationParams_valid \<lparr>page = 1, size_pg = 20\<rparr>"
    and v3: "PaginationParams_valid \<lparr>page = 3, size_pg = 10\<rparr>"
    by (simp_all add: PaginationParams_valid_def)
  have rows: "map (\<lambda>r. column r ''rn'')
     (fst (projr (search_individuals seeded adults \<lparr>page = 2, size_pg = 5\<rparr>))) =
     [SInt 6, SInt 7, SInt 8, SInt 9, SInt 10]"
    by code_simp
  show ?thesis
    using search_row_range [OF v1, of adults seeded] search_row_range [OF v3, of adults seeded]
      v1 v3 rows
    by simp
qed

section \<open>One condition for each filter field that is set\<close>

lemma render_texts:
  "map render_condition
     [Condition ''g.region_name'' Eq ''region_name'',
      Condition ''g.district_name'' Eq ''district_name'',
      Condition ''i.sex'' Eq ''sex'',
      Condition ''i.age'' Ge ''min_age'',
      Condition ''i.age'' Le ''max_age'',
      Condition ''i.marital_status'' Eq ''marital_status'',
      Condition ''i.highest_education_level'' Eq ''education_level''] =
     [''g.region_name = :region_name'',
      ''g.district_name = :district_name'',
      ''i.sex = :sex'',
      ''i.age >= :min_age'',
      ''i.age <= :max_age'',
      ''i.marital_status = :marital_status'',
      ''i.highest_education_level = :education_level'']"
  by simp

lemma matching_no_conditions: "matching db [] ps = individual_join db"
  by (simp add: matching_def)

lemma where_conditions_no_filters: "where_conditions no_filters = []"
  by (simp add: where_conditions_parts no_filters_def)

text \<open>
  C2, as stated, at a filter whose region is present and is the empty string: the
  field is present, yet the WHERE clause has no condition for it and is \<open>1=1\<close>.
\<close>

theorem empty_text_filter_counterexample:
  "region_name (no_filters\<lparr>region_name := Some ''''\<rparr>) = Some '''' \<and>
   where_conditions (no_filters\<lparr>region_name := Some ''''\<rparr>) = [] \<and>
   filter_params (no_filters\<lparr>region_name := Some ''''\<rparr>) = [] \<and>
   where_clause (where_conditions (no_filters\<lparr>region_name := Some ''''\<rparr>)) = ''1=1''"
  by (simp add: where_conditions_def filter_params_def build_where_def no_filters_def
      if_then_def where_clause_def)

text \<open>
  C2, amended. For every filter, the conditions are, in the order of the source, one
  equality for each of region, district, marital status and education level that is
  neither \<open>None\<close> nor the empty string, one equality for \<open>sex\<close> when it is not
  \<open>None\<close>, and \<open>>=\<close> for \<open>min_age\<close> and \<open><=\<close> for \<open>max_age\<close> when they are
  not \<open>None\<close>; every other field contributes nothing. The clause is the conditions
  joined by \<open>AND\<close>, each condition has its value bound under its placeholder, and
  the filter with no field gives \<open>1=1\<close>, for which the search returns the rows of the
  whole join and its size, not an error.
\<close>

theorem where_clause_per_filter:
  "where_conditions f =
     (if truthy_str (region_name f) then [Condition ''g.region_name'' Eq ''region_name''] else []) @
     (if truthy_str (district_name f) then [Condition ''g.district_name'' Eq ''district_name''] else []) @
     (if truthy_sex (sex f) then [Condition ''i.sex'' Eq ''sex''] else []) @
     (if min_age f \<noteq> None then [Condition ''i.age'' Ge ''min_age''] else []) @
     (if max_age f \<noteq> None then [Condition ''i.age'' Le ''max_age''] else []) @
     (if truthy_str (marital_status f) then [Condition ''i.marital_status'' Eq ''marital_status''] else []) @
     (if truthy_str (education_level f) then [Condition ''i.highest_education_level'' Eq ''education_level''] else []) \<and>
   where_clause (where_conditions f) =
     (if where_conditions f = [] then ''1=1''
      else join '' AND '' (map render_condition (where_conditions f))) \<and>
   binds_present (where_conditions f) (filter_params f) \<and>
   map_of (filter_params f) ''region_name'' =
     (if truthy_str (region_name f) then Some (str_param (region_name f)) else None) \<and>
   map_of (filter_params f) ''district_name'' =
     (if truthy_str (district_name f) then Some (str_param (district_name f)) else None) \<and>
   map_of (filter_params f) ''sex'' =
     (if truthy_sex (sex f) then Some (sex_param (sex f)) else None) \<and>
   map_of (filter_params f) ''min_age'' =
     (if min_age f \<noteq> None then Some (int_param (min_age f)) else None) \<and>
   map_of (filter_params f) ''max_age'' =
     (if max_age f \<noteq> None then Some (int_param (max_age f)) else None) \<and>
   map_of (filter_params f) ''marital_status'' =
     (if truthy_str (marital_status f) then Some (str_param (marital_status f)) else None) \<and>
   map_of (filter_params f) ''education_level'' =
     (if truthy_str (education_level f) then Some (str_param (education_level f)) else None) \<and>
   where_conditions no_filters = [] \<and>
   search_individuals db no_filters p =
     Inr (map select_columns
            [nr \<leftarrow> numbered (individual_join db).
               offset p + 1 \<le> fst nr \<and> fst nr \<le> offset p + size_pg p],
          int (length (individual_join db)))"
proof -
  have "where_clause (where_conditions f) =
     (if where_conditions f = [] then ''1=1''
      else join '' AND '' (map render_condition (where_conditions f)))"
    by (simp add: where_clause_def)
  moreover have "search_individuals db no_filters p =
     Inr (map select_columns
            [nr \<leftarrow> numbered (individual_join db).
               offset p + 1 \<le> fst nr \<and> fst nr \<le> offset p + size_pg p],
          int (length (individual_join db)))"
    by (simp only: search_individuals_result where_conditions_no_filters matching_no_conditions)
  moreover have "map_of (filter_params f) ''region_name'' =
     (if truthy_str (region_name f) then Some (str_param (region_name f)) else None)"
    by (simp add: filter_params_lookup)
  moreover have "map_of (filter_params f) ''district_name'' =
     (if truthy_str (district_name f) then Some (str_param (district_name f)) else None)"
    by (simp add: filter_params_lookup)
  moreover have "map_of (filter_params f) ''sex'' =
     (if truthy_sex (sex f) then Some (sex_param (sex f)) else None)"
    by (simp add: filter_params_lookup)
  moreover have "map_of (filter_params f) ''min_age'' =
     (if min_age f \<noteq> None then Some (int_param (min_age f)) else None)"
    by (simp add: filter_params_lookup)
  moreover have "map_of (filter_params f) ''max_age'' =
     (if max_age f \<noteq> None then Some (int_param (max_age f)) else None)"
    by (simp add: filter_params_lookup)
  moreover have "map_of (filter_params f) ''marital_status'' =
     (if truthy_str (marital_status f) then Some (str_param (marital_status f)) else None)"
    by (simp add: filter_params_lookup)
  moreover have "map_of (filter_params f) ''education_level'' =
     (if truthy_str (education_level f) then Some (str_param (education_level f)) else None)"
    by (simp add: filter_params_lookup)
  ultimately show ?thesis
    using where_conditions_parts [of f] binds_present_filter [of f] where_conditions_no_filters
    by (simp only: simp_thms)
qed

theorem where_clause_per_filter_witness:
  "where_clause (where_conditions all_fields) =
     ''g.region_name = :region_name AND g.district_name = :district_name AND i.sex = :sex AND i.age >= :min_age AND i.age <= :max_age AND i.marital_status = :marital_status AND i.highest_education_level = :education_level'' \<and>
   map_of (filter_params all_fields) ''min_age'' = Some (SInt 0) \<and>
   map_of (filter_params all_fields) ''sex'' = Some (SStr ''F'') \<and>
   where_clause (where_conditions no_filters) = ''1=1''"
  using where_clause_per_filter [of all_fields] where_clause_per_filter [of no_filters]
  by (simp add: all_fields_def no_filters_def where_clause_def)

section \<open>The count statement and the data statement\<close>





section \<open>The page count of the search route\<close>

lemma round_up_div:
  fixes t s :: int
  assumes "0 < s"
  shows "(t + s - 1) div s = (if t mod s = 0 then t div s else t div s + 1)"
proof -
  define q where "q = t div s"
  define r where "r = t mod s"
  have t: "t = r + q * s" by (simp add: q_def r_def)
  have r: "0 \<le> r" "r < s" using assms by (simp_all add: r_def)
  show ?thesis
  proof (cases "r = 0")
    case True
    have "t + s - 1 = (s - 1) + q * s" by (simp add: t True)
    then have "(t + s - 1) div s = ((s - 1) + q * s) div s" by (rule arg_cong)
    also have "\<dots> = (s - 1) div s + q" using assms by simp
    finally show ?thesis using True assms by (simp add: q_def r_def div_pos_pos_trivial)
  next
    case False
    have "t + s - 1 = (r - 1) + (q + 1) * s" by (simp add: t algebra_simps)
    then have "(t + s - 1) div s = ((r - 1) + (q + 1) * s) div s" by (rule arg_cong)
    also have "\<dots> = (r - 1) div s + (q + 1)" by (subst div_mult_self1) (use assms in simp_all)
    finally show ?thesis using False r by (simp add: q_def r_def div_pos_pos_trivial)
  qed
qed

lemma ceiling_div:
  fixes t s :: int
  assumes "0 < s"
  shows "(t + s - 1) div s = \<lceil>real_of_int t / real_of_int s\<rceil>"
  using assms
  by (simp add: round_up_div ceiling_divide_eq_div zdiv_zminus1_eq_if)

lemma length_window:
  "length [nr \<leftarrow> numbered rs. lo \<le> fst nr \<and> fst nr \<le> hi] =
     min (nat (hi + 1 - max lo 1)) (length rs - nat (lo - 1))"
proof -
  have "[nr \<leftarrow> numbered rs. lo \<le> fst nr \<and> fst nr \<le> hi] =
        filter (\<lambda>nr. between (SInt (fst nr)) (SInt lo) (SInt hi)) (numbered rs)"
    by (simp add: between_def)
  then show ?thesis
    by (simp add: numbered_window length_numbered min.commute)
qed

text \<open>
  C8. For every valid page and size and every valid filter the route answers, its total
  is the number of matching rows, and its page count \<open>(total + size - 1) // size\<close> is
  the ceiling of total over size, as the formula is for every total of at least 0. The page holds as many rows as the size allows and the
  matching rows beyond the offset provide: with 12 matching rows, page 1 and size 5 the
  answer has 5 rows, total 12 and 3 pages.
\<close>

theorem page_count_is_ceiling:
  assumes "PaginationParams_valid \<lparr>page = pg, size_pg = sz\<rparr>" and "SearchFilters_valid f"
  shows "(\<exists>r. search_individuals_route db f pg sz = Inr r \<and>
           total r = int (length (matching db (where_conditions f) (filter_params f))) \<and>
           pages r = (total r + sz - 1) div sz \<and>
           pages r = \<lceil>real_of_int (total r) / real_of_int sz\<rceil> \<and>
           count_rows r = length (individuals r) \<and>
           length (individuals r) =
             min (nat sz)
               (length (matching db (where_conditions f) (filter_params f)) - nat ((pg - 1) * sz)) \<and>
           (length (matching db (where_conditions f) (filter_params f)) = 12 \<and> pg = 1 \<and> sz = 5
              \<longrightarrow> length (individuals r) = 5 \<and> total r = 12 \<and> pages r = 3)) \<and>
         (0 \<le> total_count \<longrightarrow>
            (total_count + sz - 1) div sz =
              \<lceil>real_of_int total_count / real_of_int sz\<rceil>)"
proof -
  let ?M = "matching db (where_conditions f) (filter_params f)"
  let ?rows = "map select_columns
            [nr \<leftarrow> numbered ?M. (pg - 1) * sz + 1 \<le> fst nr \<and> fst nr \<le> (pg - 1) * sz + sz]"
  let ?r = "\<lparr>individuals = ?rows, resp_page = pg, resp_size = sz, total = int (length ?M),
             pages = (int (length ?M) + sz - 1) div sz, count_rows = length ?rows\<rparr>"
  from assms(1) have sz: "1 \<le> sz" and pg: "1 \<le> pg"
    by (simp_all add: PaginationParams_valid_def)
  have route: "search_individuals_route db f pg sz = Inr ?r"
    using assms by (simp add: search_individuals_route_def search_individuals_result offset_def)
  have off: "0 \<le> (pg - 1) * sz" using sz pg by simp
  have len: "length ?rows = min (nat sz) (length ?M - nat ((pg - 1) * sz))"
    using off sz by (simp add: length_window max_def)
  have ceil: "pages ?r = \<lceil>real_of_int (total ?r) / real_of_int sz\<rceil>"
    using sz ceiling_div [of sz "int (length ?M)"] by simp
  have scen: "length ?M = 12 \<and> pg = 1 \<and> sz = 5
              \<longrightarrow> length (individuals ?r) = 5 \<and> total ?r = 12 \<and> pages ?r = 3"
    using len by auto
  have answer: "\<exists>r. search_individuals_route db f pg sz = Inr r \<and>
           total r = int (length ?M) \<and>
           pages r = (total r + sz - 1) div sz \<and>
           pages r = \<lceil>real_of_int (total r) / real_of_int sz\<rceil> \<and>
           count_rows r = length (individuals r) \<and>
           length (individuals r) = min (nat sz) (length ?M - nat ((pg - 1) * sz)) \<and>
           (length ?M = 12 \<and> pg = 1 \<and> sz = 5
              \<longrightarrow> length (individuals r) = 5 \<and> total r = 12 \<and> pages r = 3)"
    apply (rule exI [of _ ?r])
    using route len ceil scen by simp
  have formula: "0 \<le> total_count \<longrightarrow>
            (total_count + sz - 1) div sz =
              \<lceil>real_of_int total_count / real_of_int sz\<rceil>"
    using sz ceiling_div [of sz total_count] by simp
  show ?thesis
    by (intro conjI answer formula)
qed

text \<open>The seeded database has 12 individuals from 18 to 65 years old.\<close>

theorem page_count_is_ceiling_witness:
  "PaginationParams_valid \<lparr>page = 1, size_pg = 5\<rparr> \<and> SearchFilters_valid adults \<and>
   length (matching seeded (where_conditions adults) (filter_params adults)) = 12 \<and>
   (\<exists>r. search_individuals_route seeded adults 1 5 = Inr r \<and>
        length (individuals r) = 5 \<and> total r = 12 \<and> pages r = 3 \<and>
        pages r = \<lceil>real_of_int 12 / real_of_int 5\<rceil>)"
proof -
  have v: "PaginationParams_valid \<lparr>page = 1, size_pg = 5\<rparr>"
    by (simp add: PaginationParams_valid_def)
  have f: "SearchFilters_valid adults"
    by (simp add: SearchFilters_valid_def adults_def)
  have m: "length (matching seeded (where_conditions adults) (filter_params adults)) = 12"
    by code_simp
  from page_count_is_ceiling [OF v f, of seeded 12] obtain r where
    r: "search_individuals_route seeded adults 1 5 = Inr r"
       "total r = int (length (matching seeded (where_conditions adults) (filter_params adults)))"
       "pages r = \<lceil>real_of_int (total r) / real_of_int 5\<rceil>"
       "length (matching seeded (where_conditions adults) (filter_params adults)) = 12 \<and>
          (1::int) = 1 \<and> (5::int) = 5
          \<longrightarrow> length (individuals r) = 5 \<and> total r = 12 \<and> pages r = 3"
    by blast
  from r m have "search_individuals_route seeded adults 1 5 = Inr r \<and>
        length (individuals r) = 5 \<and> total r = 12 \<and> pages r = 3 \<and>
        pages r = \<lceil>real_of_int 12 / real_of_int 5\<rceil>"
    by simp
  then show ?thesis using v f m by blast
qed

section \<open>The identifier 0 in the ad-hoc reads\<close>

lemma compare_zero: "sql_compare Eq v (SInt 0) = (v = SInt 0)"
  by (cases v) auto

lemma geographical_request_zero:
  "get_geographical_info_request (Some 0) = (Geographical_query [], [])"
  "get_geographical_info_request None = (Geographical_query [], [])"
  by (simp_all add: get_geographical_info_request_def if_then_def)

lemma households_request_zero:
  "get_households_request (Some 0) geo_id = get_households_request None geo_id"
  by (simp add: get_households_request_def if_then_def)

lemma households_request_none:
  "get_households_request (Some 0) None = (Household_query [], [])"
  by (simp add: get_households_request_def if_then_def)

lemma individuals_request_zero:
  "get_individuals_request (Some 0) None None =
     (Individual_query [Condition ''INDIVIDUAL_ID'' Eq ''individual_id''] False,
      [(''individual_id'', SInt 0)])"
  by (simp add: get_individuals_request_def if_then_def add_filter_def)

text \<open>
  C10. For the identifier 0, \<open>get_geographical_info\<close> and \<open>get_households\<close> build
  the statement and the parameters they build for \<open>None\<close>, with no condition on the
  identifier, and so return every row, as for \<open>None\<close>; \<open>get_individuals\<close> adds the
  condition \<open>INDIVIDUAL_ID = :individual_id\<close> with the value 0 and returns only the
  rows whose identifier is 0.
\<close>

theorem zero_identifier:
  "get_geographical_info_request (Some 0) = get_geographical_info_request None \<and>
   sql_text (fst (get_geographical_info_request (Some 0))) =
     [''SELECT geo_id, region_name, district_name, district_type, sub_district,'',
      ''locality_name, detailed_address, contact_phone_1, contact_phone_2,'',
      ''date_created, created_by'',
      ''FROM GEOGRAPHICAL_INFO'',
      ''ORDER BY region_name, district_name''] \<and>
   get_geographical_info db (Some 0) = get_geographical_info db None \<and>
   (\<exists>rows. get_geographical_info db (Some 0) = Inr rows \<and>
      length rows = length (GEOGRAPHICAL_INFO db)) \<and>
   get_households_request (Some 0) geo_id = get_households_request None geo_id \<and>
   get_households db (Some 0) geo_id = get_households db None geo_id \<and>
   (\<exists>rows. get_households db (Some 0) None = Inr rows \<and>
      length rows = length (household_join db)) \<and>
   get_individuals_request (Some 0) None None =
     (Individual_query [Condition ''INDIVIDUAL_ID'' Eq ''individual_id''] False,
      [(''individual_id'', SInt 0)]) \<and>
   sql_text (fst (get_individuals_request (Some 0) None None)) =
     [''SELECT * FROM V_INDIVIDUAL_DETAILS'',
      ''WHERE INDIVIDUAL_ID = :individual_id'',
      ''ORDER BY INDIVIDUAL_ID DESC''] \<and>
   (\<exists>rows. get_individuals db (Some 0) None None = Inr rows \<and>
      (\<forall>r \<in> set rows. column r ''INDIVIDUAL_ID'' = SInt 0) \<and>
      length rows =
        length (filter (\<lambda>r. column r ''INDIVIDUAL_ID'' = SInt 0) (V_INDIVIDUAL_DETAILS db)))"
proof -
  have g1: "get_geographical_info db (Some 0) = get_geographical_info db None"
    by (simp add: get_geographical_info_def geographical_request_zero)
  have g2: "\<exists>rows. get_geographical_info db (Some 0) = Inr rows \<and>
      length rows = length (GEOGRAPHICAL_INFO db)"
    by (simp add: get_geographical_info_def geographical_request_zero binds_present_def)
  have g3: "sql_text (fst (get_geographical_info_request (Some 0))) =
     [''SELECT geo_id, region_name, district_name, district_type, sub_district,'',
      ''locality_name, detailed_address, contact_phone_1, contact_phone_2,'',
      ''date_created, created_by'',
      ''FROM GEOGRAPHICAL_INFO'',
      ''ORDER BY region_name, district_name'']"
    by (simp add: geographical_request_zero)
  have h1: "get_households db (Some 0) geo_id = get_households db None geo_id"
    by (simp add: get_households_def households_request_zero)
  have h2: "\<exists>rows. get_households db (Some 0) None = Inr rows \<and>
      length rows = length (household_join db)"
    by (simp add: get_households_def households_request_none binds_present_def)
  have i1: "sql_text (fst (get_individuals_request (Some 0) None None)) =
     [''SELECT * FROM V_INDIVIDUAL_DETAILS'',
      ''WHERE INDIVIDUAL_ID = :individual_id'',
      ''ORDER BY INDIVIDUAL_ID DESC'']"
    by (simp add: individuals_request_zero)
  have i2: "\<exists>rows. get_individuals db (Some 0) None None = Inr rows \<and>
      (\<forall>r \<in> set rows. column r ''INDIVIDUAL_ID'' = SInt 0) \<and>
      length rows =
        length (filter (\<lambda>r. column r ''INDIVIDUAL_ID'' = SInt 0) (V_INDIVIDUAL_DETAILS db))"
    by (simp add: get_individuals_def individuals_request_zero binds_present_def holds_def
        compare_zero Let_def)
  show ?thesis
    using g1 g2 g3 h1 h2 i1 i2 geographical_request_zero households_request_zero [of geo_id]
      individuals_request_zero
    by (simp only: simp_thms)
qed

text \<open>
  On the seeded database, 0 selects the one region and both households, 2 selects no
  region and one household, and the view gives one of its three rows for 0.
\<close>

theorem zero_identifier_witness:
  "get_geographical_info seeded (Some 0) = get_geographical_info seeded None \<and>
   get_households seeded (Some 0) None = get_households seeded None None \<and>
   map length [projr (get_geographical_info seeded (Some 0)),
               projr (get_geographical_info seeded None),
               projr (get_geographical_info seeded (Some 2))] = [1, 1, 0] \<and>
   map length [projr (get_households seeded (Some 0) None),
               projr (get_households seeded None None),
               projr (get_households seeded (Some 2) None)] = [2, 2, 1] \<and>
   get_individuals seeded (Some 0) None None =
     Inr [[(''INDIVIDUAL_ID'', SInt 0), (''HOUSEHOLD_ID'', SInt 1)]] \<and>
   length (projr (get_individuals seeded None None None)) = 3"
proof -
  have a: "map length [projr (get_geographical_info seeded (Some 0)),
               projr (get_geographical_info seeded None),
               projr (get_geographical_info seeded (Some 2))] = [1, 1, 0]"
    by code_simp
  have b: "map length [projr (get_households seeded (Some 0) None),
               projr (get_households seeded None None),
               projr (get_households seeded (Some 2) None)] = [2, 2, 1]"
    by code_simp
  have c: "get_individuals seeded (Some 0) None None =
     Inr [[(''INDIVIDUAL_ID'', SInt 0), (''HOUSEHOLD_ID'', SInt 1)]]"
    by code_simp
  have d: "length (projr (get_individuals seeded None None None)) = 3"
    by code_simp
  show ?thesis
    using zero_identifier [of seeded None] a b c d by simp
qed

section \<open>Commit, rollback and release at the end of a unit of work\<close>

lemmas unit_of_work_defs =
  get_connection_def get_session_context_def callproc_def commit_def rollback_def close_def
  cursor_close_def

lemma flag_call_raises:
  assumes "connect_error env = None"
    and "procedures env name (map In vals) (committed w) = Inl e"
  shows "get_connection env (flag_body env name vals) w =
     (Inr False, w\<lparr>working := committed w,
        trace := trace w @ [Connect, Call name (map In vals), Cursor_close, Close]\<rparr>)"
  using assms by (simp add: unit_of_work_defs flag_body_def)

lemma flag_call_commits:
  assumes "connect_error env = None" and "commit_error env = None"
    and "procedures env name (map In vals) (committed w) = Inr (db, out)"
  shows "get_connection env (flag_body env name vals) w =
     (Inr True, w\<lparr>committed := db, working := db,
        trace := trace w @ [Connect, Call name (map In vals), Commit, Cursor_close, Close]\<rparr>)"
  using assms by (simp add: unit_of_work_defs flag_body_def)

lemma flag_commit_raises:
  assumes "connect_error env = None" and "commit_error env = Some e"
    and "procedures env name (map In vals) (committed w) = Inr (db, out)"
  shows "get_connection env (flag_body env name vals) w =
     (Inr False, w\<lparr>working := committed w,
        trace := trace w @ [Connect, Call name (map In vals), Commit, Cursor_close, Close]\<rparr>)"
  using assms by (simp add: unit_of_work_defs flag_body_def)



lemma delete_individual_completes:
  assumes "connect_error env = None"
    and "procedures env ''SP_DELETE_INDIVIDUAL'' [In (SInt k), Out_bool] (committed w) = Inr (db, out)"
  shows "delete_individual env k w =
     (Inr out, w\<lparr>working := committed w,
        trace := trace w @ [Connect, Call ''SP_DELETE_INDIVIDUAL'' [In (SInt k), Out_bool], Close]\<rparr>)"
  using assms by (simp add: unit_of_work_defs delete_individual_def delete_individual_body_def)



lemma delete_individual_refused:
  assumes "connect_error env = Some e"
  shows "delete_individual env k w = (Inl e, w)"
  using assms by (simp add: unit_of_work_defs delete_individual_def)

text \<open>
  C5, as stated, on the sample server. \<open>delete_individual\<close> of an existing row
  returns normally and its connection is closed with no commit at all, so the row is
  still there; \<open>update_household\<close>, whose procedure raises, returns \<open>False\<close>
  normally with neither a commit nor a rollback.
\<close>

theorem direct_connection_never_commits_counterexample:
  "delete_individual sample_server 2 sample_world =
     (Inr (SBool True),
      \<lparr>committed = [1, 2, 3], working = [1, 2, 3],
       trace = [Connect, Call ''SP_DELETE_INDIVIDUAL'' [In (SInt 2), Out_bool], Close]\<rparr>) \<and>
   count_list (trace (snd (delete_individual sample_server 2 sample_world))) Commit = 0 \<and>
   update_household sample_server 2 [SStr ''Compound''] sample_world =
     (Inr False,
      \<lparr>committed = [1, 2, 3], working = [1, 2, 3],
       trace = [Connect, Call ''SP_UPDATE_HOUSEHOLD'' [In (SInt 2), In (SStr ''Compound'')],
                Cursor_close, Close]\<rparr>) \<and>
   count_list (trace (snd (update_household sample_server 2 [SStr ''Compound''] sample_world)))
     Commit = 0 \<and>
   count_list (trace (snd (update_household sample_server 2 [SStr ''Compound''] sample_world)))
     Rollback = 0"
  by (simp add: unit_of_work_defs delete_individual_def delete_individual_body_def
      update_household_def flag_body_def sample_server_def sample_world_def
      sample_procedures_def)

text \<open>
  C5, amended. \<open>get_session_context\<close> commits exactly once after a body that returns
  normally, rolls back after a body or a commit that raises and re-raises the
  exception, and closes the session exactly once on each of these exits.
  \<open>get_connection\<close> never commits: after a body that returns normally it only closes
  the connection, once; after a body that raises it rolls back, closes once and
  re-raises; when connecting fails nothing was acquired and nothing is released. In
  every case the committed data is what the body left, and the work that was not
  committed is discarded.
\<close>

theorem unit_of_work_exits:
  "(session_factory env \<and> commit_error env = None \<and> body w = (Inr r, w1) \<longrightarrow>
      get_session_context env body w =
        (Inr r, w1\<lparr>committed := working w1, trace := trace w1 @ [Commit, Close]\<rparr>)) \<and>
   (session_factory env \<and> commit_error env = Some e \<and> body w = (Inr r, w1) \<longrightarrow>
      get_session_context env body w =
        (Inl e, w1\<lparr>working := committed w1,
           trace := trace w1 @ [Commit, Rollback, Close]\<rparr>)) \<and>
   (session_factory env \<and> body w = (Inl e, w1) \<longrightarrow>
      get_session_context env body w =
        (Inl e, w1\<lparr>working := committed w1, trace := trace w1 @ [Rollback, Close]\<rparr>)) \<and>
   (connect_error env = None \<and>
    body (w\<lparr>working := committed w, trace := trace w @ [Connect]\<rparr>) = (Inr r, w1) \<longrightarrow>
      get_connection env body w =
        (Inr r, w1\<lparr>working := committed w1, trace := trace w1 @ [Close]\<rparr>)) \<and>
   (connect_error env = None \<and>
    body (w\<lparr>working := committed w, trace := trace w @ [Connect]\<rparr>) = (Inl e, w1) \<longrightarrow>
      get_connection env body w =
        (Inl e, w1\<lparr>working := committed w1, trace := trace w1 @ [Rollback, Close]\<rparr>)) \<and>
   (connect_error env = Some e \<longrightarrow> get_connection env body w = (Inl e, w))"
  by (simp add: unit_of_work_defs)

text \<open>
  The same call as body of both managers: the session commits the delete, the direct
  connection closes without it; a call that raises is rolled back by both.
\<close>

theorem unit_of_work_exits_witness:
  "get_session_context sample_server
     (callproc sample_server ''SP_DELETE_HOUSEHOLD'' [In (SInt 2)]) sample_world =
     (Inr SNull,
      \<lparr>committed = [1, 3], working = [1, 3],
       trace = [Call ''SP_DELETE_HOUSEHOLD'' [In (SInt 2)], Commit, Close]\<rparr>) \<and>
   get_session_context sample_server
     (callproc sample_server ''SP_MISSING'' [In (SInt 2)]) sample_world =
     (Inl (DatabaseError ''PLS-00201''),
      \<lparr>committed = [1, 2, 3], working = [1, 2, 3],
       trace = [Call ''SP_MISSING'' [In (SInt 2)], Rollback, Close]\<rparr>) \<and>
   get_connection sample_server
     (callproc sample_server ''SP_DELETE_HOUSEHOLD'' [In (SInt 2)]) sample_world =
     (Inr SNull,
      \<lparr>committed = [1, 2, 3], working = [1, 2, 3],
       trace = [Connect, Call ''SP_DELETE_HOUSEHOLD'' [In (SInt 2)], Close]\<rparr>) \<and>
   get_connection sample_server
     (callproc sample_server ''SP_MISSING'' [In (SInt 2)]) sample_world =
     (Inl (DatabaseError ''PLS-00201''),
      \<lparr>committed = [1, 2, 3], working = [1, 2, 3],
       trace = [Connect, Call ''SP_MISSING'' [In (SInt 2)], Rollback, Close]\<rparr>)"
proof -
  let ?del = "callproc sample_server ''SP_DELETE_HOUSEHOLD'' [In (SInt 2)]"
  let ?bad = "callproc sample_server ''SP_MISSING'' [In (SInt 2)]"
  let ?started = "sample_world\<lparr>working := committed sample_world,
                    trace := trace sample_world @ [Connect]\<rparr>"
  have env: "session_factory sample_server" "commit_error sample_server = None"
    "connect_error sample_server = None"
    by (simp_all add: sample_server_def)
  have d1: "?del sample_world =
      (Inr SNull, \<lparr>committed = [1, 2, 3], working = [1, 3],
         trace = [Call ''SP_DELETE_HOUSEHOLD'' [In (SInt 2)]]\<rparr>)"
    by (simp add: callproc_def sample_server_def sample_world_def sample_procedures_def)
  have b1: "?bad sample_world =
      (Inl (DatabaseError ''PLS-00201''), \<lparr>committed = [1, 2, 3], working = [1, 2, 3],
         trace = [Call ''SP_MISSING'' [In (SInt 2)]]\<rparr>)"
    by (simp add: callproc_def sample_server_def sample_world_def sample_procedures_def)
  have d2: "?del ?started =
      (Inr SNull, \<lparr>committed = [1, 2, 3], working = [1, 3],
         trace = [Connect, Call ''SP_DELETE_HOUSEHOLD'' [In (SInt 2)]]\<rparr>)"
    by (simp add: callproc_def sample_server_def sample_world_def sample_procedures_def)
  have b2: "?bad ?started =
      (Inl (DatabaseError ''PLS-00201''), \<lparr>committed = [1, 2, 3], working = [1, 2, 3],
         trace = [Connect, Call ''SP_MISSING'' [In (SInt 2)]]\<rparr>)"
    by (simp add: callproc_def sample_server_def sample_world_def sample_procedures_def)
  show ?thesis
    using unit_of_work_exits [of sample_server ?del sample_world SNull _ undefined]
      unit_of_work_exits [of sample_server ?bad sample_world undefined _ "DatabaseError ''PLS-00201''"]
      env d1 b1 d2 b2
    by simp
qed

section \<open>\<open>delete_individual\<close> and the commit\<close>

lemmas create_defs =
  create_geographical_info_def create_household_def create_individual_def create_housing_def
  create_economic_activity_def

lemmas update_defs =
  update_geographical_info_def update_household_def update_individual_def update_housing_def

lemmas delete_defs =
  delete_geographical_info_def delete_household_def delete_housing_def





section \<open>A procedure that raises\<close>




section \<open>What a delete reports\<close>

text \<open>
  C4, as stated, on the sample server, whose \<open>SP_DELETE_HOUSEHOLD\<close> raises nothing
  for an identifier that is absent: \<open>delete_household\<close> of the absent 999 passes the
  identifier alone, with no output variable, and returns \<open>True\<close>; the route answers
  success, not 404.
\<close>

theorem delete_household_no_output_counterexample:
  "999 \<notin> set (committed sample_world) \<and>
   delete_household sample_server 999 sample_world =
     (Inr True,
      \<lparr>committed = [1, 2, 3], working = [1, 2, 3],
       trace = [Connect, Call ''SP_DELETE_HOUSEHOLD'' [In (SInt 999)], Commit, Cursor_close,
                Close]\<rparr>) \<and>
   fst (delete_household_route sample_server 999 sample_world) = Inr ()"
  by (simp add: unit_of_work_defs delete_household_def delete_household_route_def flag_body_def
      sample_server_def sample_world_def sample_procedures_def)

text \<open>
  C4, amended. \<open>delete_household\<close> passes the identifier alone and binds no output
  variable: it returns \<open>True\<close> when the procedure and the commit complete, whatever
  the procedure found, and \<open>False\<close> when the procedure raises, the exception being
  caught; the route answers 404 for \<open>False\<close>. \<open>delete_individual\<close> is the method
  that binds a boolean output variable: when the procedure completes it returns the
  value of that variable, so a false output gives a false result and 404 without any
  exception.
\<close>

theorem delete_results:
  "(connect_error env = None \<and> commit_error env = None \<and>
    procedures env ''SP_DELETE_HOUSEHOLD'' [In (SInt k)] (committed w) = Inr (db, out)
    \<longrightarrow> delete_household env k w =
          (Inr True, w\<lparr>committed := db, working := db,
             trace := trace w @
               [Connect, Call ''SP_DELETE_HOUSEHOLD'' [In (SInt k)], Commit, Cursor_close,
                Close]\<rparr>) \<and>
        fst (delete_household_route env k w) = Inr ()) \<and>
   (connect_error env = None \<and>
    procedures env ''SP_DELETE_HOUSEHOLD'' [In (SInt k)] (committed w) = Inl e
    \<longrightarrow> delete_household env k w =
          (Inr False, w\<lparr>working := committed w,
             trace := trace w @
               [Connect, Call ''SP_DELETE_HOUSEHOLD'' [In (SInt k)], Cursor_close, Close]\<rparr>) \<and>
        fst (delete_household_route env k w) = Inl (HTTPException 404)) \<and>
   (connect_error env = None \<and>
    procedures env ''SP_DELETE_INDIVIDUAL'' [In (SInt k), Out_bool] (committed w) = Inr (db, out)
    \<longrightarrow> delete_individual env k w =
          (Inr out, w\<lparr>working := committed w,
             trace := trace w @
               [Connect, Call ''SP_DELETE_INDIVIDUAL'' [In (SInt k), Out_bool], Close]\<rparr>) \<and>
        fst (delete_individual_route env k w) =
          (if truthy_val out then Inr () else Inl (HTTPException 404)))"
proof -
  have found: "connect_error env = None \<and> commit_error env = None \<and>
    procedures env ''SP_DELETE_HOUSEHOLD'' [In (SInt k)] (committed w) = Inr (db, out)
    \<longrightarrow> delete_household env k w =
          (Inr True, w\<lparr>committed := db, working := db,
             trace := trace w @
               [Connect, Call ''SP_DELETE_HOUSEHOLD'' [In (SInt k)], Commit, Cursor_close,
                Close]\<rparr>) \<and>
        fst (delete_household_route env k w) = Inr ()"
    using flag_call_commits [of env "''SP_DELETE_HOUSEHOLD''" "[SInt k]" w db out]
    by (simp add: delete_household_def delete_household_route_def)
  have raised: "connect_error env = None \<and>
    procedures env ''SP_DELETE_HOUSEHOLD'' [In (SInt k)] (committed w) = Inl e
    \<longrightarrow> delete_household env k w =
          (Inr False, w\<lparr>working := committed w,
             trace := trace w @
               [Connect, Call ''SP_DELETE_HOUSEHOLD'' [In (SInt k)], Cursor_close, Close]\<rparr>) \<and>
        fst (delete_household_route env k w) = Inl (HTTPException 404)"
    using flag_call_raises [of env "''SP_DELETE_HOUSEHOLD''" "[SInt k]" w e]
    by (simp add: delete_household_def delete_household_route_def)
  have flagged: "connect_error env = None \<and>
    procedures env ''SP_DELETE_INDIVIDUAL'' [In (SInt k), Out_bool] (committed w) = Inr (db, out)
    \<longrightarrow> delete_individual env k w =
          (Inr out, w\<lparr>working := committed w,
             trace := trace w @
               [Connect, Call ''SP_DELETE_INDIVIDUAL'' [In (SInt k), Out_bool], Close]\<rparr>) \<and>
        fst (delete_individual_route env k w) =
          (if truthy_val out then Inr () else Inl (HTTPException 404))"
    using delete_individual_completes [of env k w db out]
    by (simp add: delete_individual_route_def)
  show ?thesis
    by (intro conjI found raised flagged)
qed

text \<open>
  On the sample server the absent individual 999 is reported as not found through the
  output variable, and the household 2, which exists, is deleted.
\<close>

theorem delete_results_witness:
  "delete_individual sample_server 999 sample_world =
     (Inr (SBool False),
      \<lparr>committed = [1, 2, 3], working = [1, 2, 3],
       trace = [Connect, Call ''SP_DELETE_INDIVIDUAL'' [In (SInt 999), Out_bool], Close]\<rparr>) \<and>
   fst (delete_individual_route sample_server 999 sample_world) = Inl (HTTPException 404) \<and>
   delete_household sample_server 2 sample_world =
     (Inr True,
      \<lparr>committed = [1, 3], working = [1, 3],
       trace = [Connect, Call ''SP_DELETE_HOUSEHOLD'' [In (SInt 2)], Commit, Cursor_close,
                Close]\<rparr>) \<and>
   fst (delete_household_route sample_server 2 sample_world) = Inr ()"
proof -
  have env: "connect_error sample_server = None" "commit_error sample_server = None"
    by (simp_all add: sample_server_def)
  have p1: "procedures sample_server ''SP_DELETE_INDIVIDUAL'' [In (SInt 999), Out_bool]
              (committed sample_world) = Inr ([1, 2, 3], SBool False)"
    by (simp add: sample_server_def sample_world_def sample_procedures_def)
  have p2: "procedures sample_server ''SP_DELETE_HOUSEHOLD'' [In (SInt 2)]
              (committed sample_world) = Inr ([1, 3], SNull)"
    by (simp add: sample_server_def sample_world_def sample_procedures_def)
  show ?thesis
    using delete_results [of sample_server 999 sample_world "[1, 2, 3]" "SBool False" undefined]
          delete_results [of sample_server 2 sample_world "[1, 3]" SNull undefined]
          env p1 p2
    by (simp add: sample_world_def)
qed

section \<open>How many connections are held\<close>

lemma step_pool_bound:
  assumes "pool_limited cfg" and "checked_out c + idle c \<le> pool_ceiling cfg"
  shows "checked_out (step cfg a c) + idle (step cfg a c) \<le> pool_ceiling cfg"
  using assms by (cases a) auto

lemma run_pool_bound:
  assumes "pool_limited cfg" and "checked_out c + idle c \<le> pool_ceiling cfg"
  shows "checked_out (run cfg acts c) + idle (run cfg acts c) \<le> pool_ceiling cfg"
  using assms(2) unfolding run_def
proof (induction acts arbitrary: c)
  case Nil
  then show ?case by simp
next
  case (Cons a acts)
  from step_pool_bound [OF assms(1) Cons.prems] show ?case
    by (simp add: Cons.IH)
qed

lemma run_direct_connects:
  "direct (run cfg (replicate n Direct_connect) c) = direct c + n \<and>
   checked_out (run cfg (replicate n Direct_connect) c) = checked_out c \<and>
   idle (run cfg (replicate n Direct_connect) c) = idle c"
  unfolding run_def by (induction n arbitrary: c) simp_all

lemma run_direct_only:
  "set acts \<subseteq> {Direct_connect, Direct_close} \<Longrightarrow>
   checked_out (run cfg acts c) = checked_out c \<and> idle (run cfg acts c) = idle c"
  unfolding run_def by (induction acts arbitrary: c) auto

lemma flag_opens_one:
  "connect_error env = None \<Longrightarrow>
   \<exists>evs. trace (snd (get_connection env (flag_body env name vals) w)) = trace w @ evs \<and>
         direct_actions evs = [Direct_connect, Direct_close]"
  by (auto simp: unit_of_work_defs flag_body_def split: sum.splits prod.splits option.splits)

lemma insert_opens_one:
  "connect_error env = None \<Longrightarrow>
   \<exists>evs. trace (snd (get_connection env (insert_body env name vals) w)) = trace w @ evs \<and>
         direct_actions evs = [Direct_connect, Direct_close]"
  by (auto simp: unit_of_work_defs insert_body_def split: sum.splits prod.splits option.splits)

lemma delete_individual_opens_one:
  "connect_error env = None \<Longrightarrow>
   \<exists>evs. trace (snd (delete_individual env k w)) = trace w @ evs \<and>
         direct_actions evs = [Direct_connect, Direct_close]"
  by (auto simp: unit_of_work_defs delete_individual_def delete_individual_body_def
      split: sum.splits prod.splits option.splits error.splits)

text \<open>
  C7, as stated, with the default settings: sixteen procedure calls in flight, each
  between its \<open>oracledb.connect\<close> and its close, hold sixteen connections, one more
  than pool size plus overflow.
\<close>

theorem direct_connections_exceed_ceiling_counterexample:
  "pool_limited default_settings \<and> pool_ceiling default_settings = 15 \<and>
   held (run default_settings (replicate 16 Direct_connect) no_connections) = 16"
proof -
  have "replicate 16 Direct_connect = replicate (Suc (Suc (Suc (Suc (Suc (Suc (Suc (Suc (Suc
          (Suc (Suc (Suc (Suc (Suc (Suc (Suc 0)))))))))))))))) Direct_connect"
    by (simp add: eval_nat_numeral)
  then show ?thesis
    by (simp add: pool_limited_def pool_ceiling_def default_settings_def held_def run_def
        no_connections_def)
qed

text \<open>
  C7, amended. The connections of the engine, checked out or idle, never exceed pool
  size plus overflow when both limits are set, whatever is done in whatever order, and
  a statement run through the engine opens no connection of its own. Every create,
  update and delete method opens one connection with \<open>oracledb.connect\<close> and closes
  it; these connections are outside the pool and nothing bounds their number: \<open>n\<close>
  such calls in flight hold \<open>n\<close> connections.
\<close>

theorem pool_bounds_engine_connections_only:
  "(pool_limited cfg \<longrightarrow>
      checked_out (run cfg acts no_connections) + idle (run cfg acts no_connections)
        \<le> pool_ceiling cfg) \<and>
   direct (run cfg engine_connect_actions c) = direct c \<and>
   held (run cfg (replicate n Direct_connect) no_connections) = n \<and>
   (\<forall>create \<in> set [create_geographical_info, create_household, create_individual,
                     create_housing, create_economic_activity].
      connect_error env = None \<longrightarrow>
      (\<exists>evs. trace (snd (create env vals w)) = trace w @ evs \<and>
             direct_actions evs = [Direct_connect, Direct_close])) \<and>
   (\<forall>update \<in> set [update_geographical_info, update_household, update_individual,
                     update_housing].
      connect_error env = None \<longrightarrow>
      (\<exists>evs. trace (snd (update env k vals w)) = trace w @ evs \<and>
             direct_actions evs = [Direct_connect, Direct_close])) \<and>
   (\<forall>delete \<in> set [delete_geographical_info, delete_household, delete_housing].
      connect_error env = None \<longrightarrow>
      (\<exists>evs. trace (snd (delete env k w)) = trace w @ evs \<and>
             direct_actions evs = [Direct_connect, Direct_close])) \<and>
   (connect_error env = None \<longrightarrow>
      (\<exists>evs. trace (snd (delete_individual env k w)) = trace w @ evs \<and>
             direct_actions evs = [Direct_connect, Direct_close]))"
proof -
  have pool: "pool_limited cfg \<longrightarrow>
      checked_out (run cfg acts no_connections) + idle (run cfg acts no_connections)
        \<le> pool_ceiling cfg"
    using run_pool_bound [of cfg no_connections acts] by (simp add: no_connections_def)
  have engine: "direct (run cfg engine_connect_actions c) = direct c"
    by (simp add: run_def engine_connect_actions_def)
  have unbounded: "held (run cfg (replicate n Direct_connect) no_connections) = n"
    using run_direct_connects [of cfg n no_connections]
    by (simp add: held_def no_connections_def)
  have creates: "\<forall>create \<in> set [create_geographical_info, create_household, create_individual,
                     create_housing, create_economic_activity].
      connect_error env = None \<longrightarrow>
      (\<exists>evs. trace (snd (create env vals w)) = trace w @ evs \<and>
             direct_actions evs = [Direct_connect, Direct_close])"
    by (simp add: create_defs insert_opens_one)
  have updates: "\<forall>update \<in> set [update_geographical_info, update_household, update_individual,
                     update_housing].
      connect_error env = None \<longrightarrow>
      (\<exists>evs. trace (snd (update env k vals w)) = trace w @ evs \<and>
             direct_actions evs = [Direct_connect, Direct_close])"
    by (simp add: update_defs flag_opens_one)
  have deletes: "\<forall>delete \<in> set [delete_geographical_info, delete_household, delete_housing].
      connect_error env = None \<longrightarrow>
      (\<exists>evs. trace (snd (delete env k w)) = trace w @ evs \<and>
             direct_actions evs = [Direct_connect, Direct_close])"
    by (simp add: delete_defs flag_opens_one)
  have individual: "connect_error env = None \<longrightarrow>
      (\<exists>evs. trace (snd (delete_individual env k w)) = trace w @ evs \<and>
             direct_actions evs = [Direct_connect, Direct_close])"
    by (simp add: delete_individual_opens_one)
  show ?thesis
    by (intro conjI pool engine unbounded creates updates deletes individual)
qed

text \<open>
  With the defaults, twenty checkouts leave fifteen connections checked out, three
  direct connections come on top, and after all checkins five stay idle.
\<close>

theorem pool_bounds_engine_connections_only_witness:
  "pool_limited default_settings \<and>
   checked_out (run default_settings
       (replicate 20 Engine_checkout @ replicate 3 Direct_connect) no_connections)
     + idle (run default_settings
       (replicate 20 Engine_checkout @ replicate 3 Direct_connect) no_connections)
     \<le> pool_ceiling default_settings \<and>
   run default_settings (replicate 20 Engine_checkout @ replicate 3 Direct_connect)
     no_connections = \<lparr>checked_out = 15, idle = 0, direct = 3\<rparr> \<and>
   run default_settings (replicate 20 Engine_checkout @ replicate 17 Engine_checkin)
     no_connections = \<lparr>checked_out = 0, idle = 5, direct = 0\<rparr> \<and>
   direct_actions (trace (snd (delete_household sample_server 2 sample_world))) =
     [Direct_connect, Direct_close]"
proof -
  have lim: "pool_limited default_settings"
    by (simp add: pool_limited_def default_settings_def)
  have ceil: "pool_ceiling default_settings = 15"
    by (simp add: pool_ceiling_def default_settings_def)
  have r1: "run default_settings (replicate 20 Engine_checkout @ replicate 3 Direct_connect)
     no_connections = \<lparr>checked_out = 15, idle = 0, direct = 3\<rparr>"
    by code_simp
  have r2: "run default_settings (replicate 20 Engine_checkout @ replicate 17 Engine_checkin)
     no_connections = \<lparr>checked_out = 0, idle = 5, direct = 0\<rparr>"
    by code_simp
  have r3: "direct_actions (trace (snd (delete_household sample_server 2 sample_world))) =
     [Direct_connect, Direct_close]"
    by code_simp
  show ?thesis
    using pool_bounds_engine_connections_only
            [of default_settings "replicate 20 Engine_checkout @ replicate 3 Direct_connect"]
          lim r2 r3
    by (simp add: r1 ceil)
qed

end
